theory Spec2Isabelle
  imports Complex_Main "HOL-Library.Word" "HOL-Library.Sublist"
begin

section \<open>FlexASIOUtil/string.h: Join\<close>

text \<open>
  \<^verbatim>\<open>JoinStream(items, delimiter, result, render)\<close> writes to the \<^verbatim>\<open>std::ostream\<close> \<open>result\<close>. An
  output stream is modelled by the characters written to it so far (\<open>str\<close>) and by
  whether one of its error bits \<^verbatim>\<open>failbit\<close> or \<^verbatim>\<open>badbit\<close> is set (\<open>failbit\<close>). An insertion
  \<^verbatim>\<open>result << v\<close> into a stream with an error bit set writes nothing. An insertion into a
  good stream writes some characters and either leaves the stream good (\<open>Wrote\<close>) or sets
  an error bit (\<open>Failed\<close>): inserting a \<^verbatim>\<open>std::string\<close> or a number is of the first kind,
  inserting a \<^verbatim>\<open>std::streambuf*\<close> with nothing to read or a null \<^verbatim>\<open>const char*\<close> is of the
  second kind and writes no character.
\<close>

datatype insertion = Wrote string | Failed string

fun characters :: "insertion \<Rightarrow> string" where
  "characters (Wrote s) = s"
| "characters (Failed s) = s"

fun succeeds :: "insertion \<Rightarrow> bool" where
  "succeeds (Wrote s) = True"
| "succeeds (Failed s) = False"

record ostream =
  str :: string
  failbit :: bool

definition stream_insert :: "insertion \<Rightarrow> ostream \<Rightarrow> ostream" where
  "stream_insert ins os =
     (if failbit os then os
      else \<lparr>str = str os @ characters ins, failbit = \<not> succeeds ins\<rparr>)"

text \<open>
  The body of \<^verbatim>\<open>JoinStream\<close> is
  \<^verbatim>\<open>
    auto it = std::begin(items);
    if (it == std::end(items)) return;
    for (;;) {
      result << render(*it);
      if (++it == std::end(items)) break;
      result << delimiter;
    }
  \<close>
  The items and the value \<^verbatim>\<open>render\<close> returns have any type with a \<^verbatim>\<open><<\<close>; in the model
  \<open>render x\<close> is the insertion \<^verbatim>\<open>result << render(x)\<close> of the item \<open>x\<close> into a good stream, and
  \<^verbatim>\<open>render\<close> is taken to return. The delimiter is a \<^verbatim>\<open>std::string_view\<close>, whose insertion
  leaves a good stream good. \<open>JoinStream_loop x rest\<close> is the \<^verbatim>\<open>for (;;)\<close> loop entered with
  \<^verbatim>\<open>*it\<close> = \<open>x\<close> and \<open>rest\<close> the items after \<^verbatim>\<open>it\<close>; the function returns the stream after its
  writes.
\<close>

fun JoinStream_loop ::
  "'a \<Rightarrow> 'a list \<Rightarrow> string \<Rightarrow> ostream \<Rightarrow> ('a \<Rightarrow> insertion) \<Rightarrow> ostream" where
  "JoinStream_loop x [] delimiter result render = stream_insert (render x) result"
| "JoinStream_loop x (y # rest) delimiter result render =
     JoinStream_loop y rest delimiter
       (stream_insert (Wrote delimiter) (stream_insert (render x) result)) render"

definition JoinStream ::
  "'a list \<Rightarrow> string \<Rightarrow> ostream \<Rightarrow> ('a \<Rightarrow> insertion) \<Rightarrow> ostream" where
  "JoinStream items delimiter result render =
     (case items of
        [] \<Rightarrow> result
      | x # rest \<Rightarrow> JoinStream_loop x rest delimiter result render)"

text \<open>
  \<^verbatim>\<open>Join\<close> runs \<^verbatim>\<open>JoinStream\<close> on a fresh \<^verbatim>\<open>std::stringstream\<close>, which is empty and good, and
  returns \<^verbatim>\<open>result.str()\<close>, the characters written, whatever the error bits are.
\<close>

definition Join :: "'a list \<Rightarrow> string \<Rightarrow> ('a \<Rightarrow> insertion) \<Rightarrow> string" where
  "Join items delimiter render =
     str (JoinStream items delimiter \<lparr>str = [], failbit = False\<rparr> render)"





section \<open>FlexASIOTest/test.cpp: error names\<close>

text \<open>
  \<^verbatim>\<open>ASIOError\<close> is \<^verbatim>\<open>typedef long ASIOError\<close>, a 32-bit signed integer on the Windows targets
  of the driver. The enumerators are declared in the ASIO SDK header \<^verbatim>\<open>asio.h\<close>, which is
  not part of the repository; their values are those of ASIO SDK 2.3.1:
  \<^verbatim>\<open>ASE_OK = 0\<close>, \<^verbatim>\<open>ASE_SUCCESS = 0x3f4847a0\<close>, \<^verbatim>\<open>ASE_NotPresent = -1000\<close> and the
  following six in steps of one.
\<close>

type_synonym ASIOError = "32 word"

definition ASE_OK :: ASIOError where "ASE_OK = 0"
definition ASE_SUCCESS :: ASIOError where "ASE_SUCCESS = 0x3f4847a0"
definition ASE_NotPresent :: ASIOError where "ASE_NotPresent = - 1000"
definition ASE_HWMalfunction :: ASIOError where "ASE_HWMalfunction = - 999"
definition ASE_InvalidParameter :: ASIOError where "ASE_InvalidParameter = - 998"
definition ASE_InvalidMode :: ASIOError where "ASE_InvalidMode = - 997"
definition ASE_SPNotAdvancing :: ASIOError where "ASE_SPNotAdvancing = - 996"
definition ASE_NoClock :: ASIOError where "ASE_NoClock = - 995"
definition ASE_NoMemory :: ASIOError where "ASE_NoMemory = - 994"

text \<open>The \<^verbatim>\<open>switch\<close> of \<^verbatim>\<open>GetASIOErrorString\<close>, one branch per \<^verbatim>\<open>case\<close> label in source order.\<close>

definition GetASIOErrorString :: "ASIOError \<Rightarrow> string" where
  "GetASIOErrorString error =
     (if error = ASE_OK then ''ASE_OK''
      else if error = ASE_SUCCESS then ''ASE_SUCCESS''
      else if error = ASE_NotPresent then ''ASE_NotPresent''
      else if error = ASE_HWMalfunction then ''ASE_HWMalfunction''
      else if error = ASE_InvalidParameter then ''ASE_InvalidParameter''
      else if error = ASE_InvalidMode then ''ASE_InvalidMode''
      else if error = ASE_SPNotAdvancing then ''ASE_SPNotAdvancing''
      else if error = ASE_NoClock then ''ASE_NoClock''
      else if error = ASE_NoMemory then ''ASE_NoMemory''
      else ''(unknown ASE error code)'')"

text \<open>The fixed vocabulary of the claim, and the names it is rendered with.\<close>

definition ASE_vocabulary :: "ASIOError list" where
  "ASE_vocabulary =
     [ASE_OK, ASE_SUCCESS, ASE_NotPresent, ASE_HWMalfunction, ASE_InvalidParameter,
      ASE_InvalidMode, ASE_SPNotAdvancing, ASE_NoClock, ASE_NoMemory]"

definition ASE_names :: "string list" where
  "ASE_names =
     [''ASE_OK'', ''ASE_SUCCESS'', ''ASE_NotPresent'', ''ASE_HWMalfunction'',
      ''ASE_InvalidParameter'', ''ASE_InvalidMode'', ''ASE_SPNotAdvancing'',
      ''ASE_NoClock'', ''ASE_NoMemory'']"


section \<open>FlexASIOTest/test.cpp: the exerciser\<close>

subsection \<open>Values exchanged with the driver\<close>

text \<open>
  \<^verbatim>\<open>ASIOSampleRate\<close> is a \<^verbatim>\<open>double\<close>. The exerciser only passes rates on and compares them
  with \<^verbatim>\<open>==\<close>, so a double is modelled by the number it denotes, an infinity or NaN;
  \<open>double_eq\<close> is the \<^verbatim>\<open>==\<close> of IEEE 754, under which NaN equals nothing.
\<close>

datatype double = Finite real | Infinite bool | NaN

fun double_eq :: "double \<Rightarrow> double \<Rightarrow> bool" where
  "double_eq (Finite a) (Finite b) = (a = b)"
| "double_eq (Infinite s) (Infinite t) = (s = t)"
| "double_eq _ _ = False"

text \<open>The conversion of an \<^verbatim>\<open>int\<close> rate of the initializer list to \<^verbatim>\<open>double\<close>, which is exact.\<close>

definition double_of_int :: "int \<Rightarrow> double" where
  "double_of_int n = Finite (of_int n)"

text \<open>
  \<^verbatim>\<open>long\<close> values (channel numbers and counts, buffer sizes) are modelled as \<open>int\<close>: the
  exerciser only compares them and increments a loop counter that stays below a
  \<^verbatim>\<open>long\<close> bound, so no operation on them can wrap. Pointers are addresses, \<open>0\<close> being
  \<^verbatim>\<open>nullptr\<close>.
\<close>

definition LONG_MIN :: int where "LONG_MIN = - (2 ^ 31)"

record BufferSize =
  min_size :: int
  max_size :: int
  preferred :: int
  granularity :: int

record ASIOChannelInfo =
  channel :: int
  isInput :: bool
  isActive :: bool
  channelGroup :: int
  type :: int
  name :: string

record ASIODriverInfo =
  asioVersion :: int
  driverVersion :: int
  name :: string
  errorMessage :: string
  sysRef :: nat

record ASIOBufferInfo =
  isInput :: bool
  channelNum :: int
  buffers :: "nat \<times> nat"

text \<open>
  The four callbacks of \<^verbatim>\<open>ASIOCallbacks\<close>. The lambdas of \<^verbatim>\<open>Run\<close> capture nothing and touch no
  state, so a callback is modelled by the value it returns for its arguments.
\<close>

record ASIOCallbacks =
  bufferSwitch :: "int \<Rightarrow> bool \<Rightarrow> unit"
  sampleRateDidChange :: "double \<Rightarrow> unit"
  asioMessage :: "int \<Rightarrow> int \<Rightarrow> nat \<Rightarrow> nat \<Rightarrow> int"
  bufferSwitchTimeInfo :: "nat \<Rightarrow> int \<Rightarrow> bool \<Rightarrow> nat"

subsection \<open>The driver under test\<close>

text \<open>
  The exerciser calls the driver through the ASIO host library (\<^verbatim>\<open>ASIOInit\<close>,
  \<^verbatim>\<open>ASIOGetChannels\<close>, ...), which forwards to \<^verbatim>\<open>theAsioDriver\<close>. The driver itself is
  not among the sources, so it is a parameter: any deterministic driver with a state of
  type \<open>'s\<close>. Each
  entry point takes the driver state and returns the error code, the content of its
  out-parameters after the call, and the new state. An out-parameter the exerciser
  initialises is passed in with that content.
\<close>

record 's driver =
  ASIOInit :: "ASIODriverInfo \<Rightarrow> 's \<Rightarrow> (ASIOError \<times> ASIODriverInfo) \<times> 's"
  ASIOGetChannels :: "'s \<Rightarrow> (ASIOError \<times> int \<times> int) \<times> 's"
  ASIOGetBufferSize :: "BufferSize \<Rightarrow> 's \<Rightarrow> (ASIOError \<times> BufferSize) \<times> 's"
  ASIOGetSampleRate :: "double \<Rightarrow> 's \<Rightarrow> (ASIOError \<times> double) \<times> 's"
  ASIOCanSampleRate :: "double \<Rightarrow> 's \<Rightarrow> ASIOError \<times> 's"
  ASIOSetSampleRate :: "double \<Rightarrow> 's \<Rightarrow> ASIOError \<times> 's"
  ASIOOutputReady :: "'s \<Rightarrow> ASIOError \<times> 's"
  ASIOGetChannelInfo :: "int \<Rightarrow> bool \<Rightarrow> 's \<Rightarrow> (ASIOError \<times> ASIOChannelInfo) \<times> 's"
  ASIOCreateBuffers ::
    "ASIOBufferInfo list \<Rightarrow> int \<Rightarrow> ASIOCallbacks \<Rightarrow> 's \<Rightarrow> (ASIOError \<times> ASIOBufferInfo list) \<times> 's"

text \<open>
  What the exerciser does to the outside world: one event per driver call, in call
  order, holding the arguments, the returned error code (the line \<^verbatim>\<open>PrintError\<close> prints)
  and the counts, sizes and rates the driver reported.
\<close>

datatype event =
    Ev_ASIOInit ASIOError
  | Ev_ASIOGetChannels ASIOError int int
  | Ev_ASIOGetBufferSize ASIOError BufferSize
  | Ev_ASIOGetSampleRate ASIOError double
  | Ev_ASIOCanSampleRate double ASIOError
  | Ev_ASIOSetSampleRate double ASIOError
  | Ev_ASIOOutputReady ASIOError
  | Ev_ASIOGetChannelInfo int bool ASIOError
  | Ev_ASIOCreateBuffers "ASIOBufferInfo list" int ASIOCallbacks ASIOError

record 's world =
  driver_state :: 's
  events :: "event list"

text \<open>
  \<^verbatim>\<open>PrintError\<close> prints the name of the error, \<^verbatim>\<open>GetASIOErrorString(error)\<close>, and returns the
  error unchanged. The lines a step prints for a call are recorded as the event \<open>ev\<close>.
\<close>

definition PrintError :: "event \<Rightarrow> ASIOError \<Rightarrow> 's world \<Rightarrow> ASIOError \<times> 's world" where
  "PrintError ev error w = (error, w\<lparr>events := events w @ [ev]\<rparr>)"

subsection \<open>The steps\<close>

definition Init :: "'s driver \<Rightarrow> 's world \<Rightarrow> ASIODriverInfo option \<times> 's world" where
  "Init drv w =
     (let asioDriverInfo =
            \<lparr>asioVersion = 2, driverVersion = 0, name = [], errorMessage = [], sysRef = 0\<rparr>;
          ((error, asioDriverInfo), s) = ASIOInit drv asioDriverInfo (driver_state w);
          (initError, w) = PrintError (Ev_ASIOInit error) error (w\<lparr>driver_state := s\<rparr>)
      in if initError \<noteq> ASE_OK then (None, w) else (Some asioDriverInfo, w))"

definition GetChannels :: "'s driver \<Rightarrow> 's world \<Rightarrow> (int \<times> int) \<times> 's world" where
  "GetChannels drv w =
     (let ((error, numInputChannels, numOutputChannels), s) = ASIOGetChannels drv (driver_state w);
          (error, w) = PrintError (Ev_ASIOGetChannels error numInputChannels numOutputChannels)
                         error (w\<lparr>driver_state := s\<rparr>)
      in if error \<noteq> ASE_OK then ((0, 0), w) else ((numInputChannels, numOutputChannels), w))"

definition GetBufferSize :: "'s driver \<Rightarrow> 's world \<Rightarrow> BufferSize option \<times> 's world" where
  "GetBufferSize drv w =
     (let bufferSize =
            \<lparr>min_size = LONG_MIN, max_size = LONG_MIN, preferred = LONG_MIN,
             granularity = LONG_MIN\<rparr>;
          ((error, bufferSize), s) = ASIOGetBufferSize drv bufferSize (driver_state w);
          (error, w) = PrintError (Ev_ASIOGetBufferSize error bufferSize) error
                         (w\<lparr>driver_state := s\<rparr>)
      in if error \<noteq> ASE_OK then (None, w) else (Some bufferSize, w))"

definition GetSampleRate :: "'s driver \<Rightarrow> 's world \<Rightarrow> double option \<times> 's world" where
  "GetSampleRate drv w =
     (let sampleRate = NaN;
          ((error, sampleRate), s) = ASIOGetSampleRate drv sampleRate (driver_state w);
          (error, w) = PrintError (Ev_ASIOGetSampleRate error sampleRate) error
                         (w\<lparr>driver_state := s\<rparr>)
      in if error \<noteq> ASE_OK then (None, w) else (Some sampleRate, w))"

definition CanSampleRate :: "'s driver \<Rightarrow> double \<Rightarrow> 's world \<Rightarrow> bool \<times> 's world" where
  "CanSampleRate drv sampleRate w =
     (let (error, s) = ASIOCanSampleRate drv sampleRate (driver_state w);
          (error, w) = PrintError (Ev_ASIOCanSampleRate sampleRate error) error
                         (w\<lparr>driver_state := s\<rparr>)
      in (error = ASE_OK, w))"

definition SetSampleRate :: "'s driver \<Rightarrow> double \<Rightarrow> 's world \<Rightarrow> bool \<times> 's world" where
  "SetSampleRate drv sampleRate w =
     (let (error, s) = ASIOSetSampleRate drv sampleRate (driver_state w);
          (error, w) = PrintError (Ev_ASIOSetSampleRate sampleRate error) error
                         (w\<lparr>driver_state := s\<rparr>)
      in (error = ASE_OK, w))"

definition OutputReady :: "'s driver \<Rightarrow> 's world \<Rightarrow> bool \<times> 's world" where
  "OutputReady drv w =
     (let (error, s) = ASIOOutputReady drv (driver_state w);
          (error, w) = PrintError (Ev_ASIOOutputReady error) error (w\<lparr>driver_state := s\<rparr>)
      in (error = ASE_OK, w))"

definition GetChannelInfo ::
  "'s driver \<Rightarrow> int \<Rightarrow> bool \<Rightarrow> 's world \<Rightarrow> ASIOChannelInfo option \<times> 's world" where
  "GetChannelInfo drv chan is_input w =
     (let ((error, channelInfo), s) = ASIOGetChannelInfo drv chan is_input (driver_state w);
          (error, w) = PrintError (Ev_ASIOGetChannelInfo chan is_input error) error
                         (w\<lparr>driver_state := s\<rparr>)
      in if error \<noteq> ASE_OK then (None, w) else (Some channelInfo, w))"

text \<open>
  The two loops of \<^verbatim>\<open>GetAllChannelInfo\<close> have the same shape,
  \<^verbatim>\<open>for (long chan = 0; chan < count; ++chan) GetChannelInfo(chan, is_input);\<close>
  with \<open>is_input\<close> true in the first loop and false in the second, and are one recursive
  function, entered with \<open>chan = 0\<close>.
\<close>

function GetAllChannelInfo_loop ::
  "'s driver \<Rightarrow> bool \<Rightarrow> int \<Rightarrow> int \<Rightarrow> 's world \<Rightarrow> 's world" where
  "GetAllChannelInfo_loop drv is_input chan count w =
     (if chan < count
      then GetAllChannelInfo_loop drv is_input (chan + 1) count
             (snd (GetChannelInfo drv chan is_input w))
      else w)"
  by pat_completeness auto
termination
  by (relation "measure (\<lambda>(drv, is_input, chan, count, w). nat (count - chan))") auto

declare GetAllChannelInfo_loop.simps [simp del]

definition GetAllChannelInfo :: "'s driver \<Rightarrow> int \<times> int \<Rightarrow> 's world \<Rightarrow> 's world" where
  "GetAllChannelInfo drv ioChannelCounts w =
     GetAllChannelInfo_loop drv False 0 (snd ioChannelCounts)
       (GetAllChannelInfo_loop drv True 0 (fst ioChannelCounts) w)"

text \<open>
  The two loops of \<^verbatim>\<open>CreateBuffers\<close>, again of one shape:
  \<^verbatim>\<open>
    for (long chan = 0; chan < count; ++chan) {
      auto& bufferInfo = bufferInfos.emplace_back();
      bufferInfo.isInput = is_input;
      bufferInfo.channelNum = chan;
    }
  \<close>
  \<^verbatim>\<open>emplace_back()\<close> value-initialises the new element, so both buffer pointers are null.
\<close>

function CreateBuffers_loop ::
  "bool \<Rightarrow> int \<Rightarrow> int \<Rightarrow> ASIOBufferInfo list \<Rightarrow> ASIOBufferInfo list" where
  "CreateBuffers_loop is_input chan count bufferInfos =
     (if chan < count
      then CreateBuffers_loop is_input (chan + 1) count
             (bufferInfos @ [\<lparr>isInput = is_input, channelNum = chan, buffers = (0, 0)\<rparr>])
      else bufferInfos)"
  by pat_completeness auto
termination
  by (relation "measure (\<lambda>(is_input, chan, count, bufferInfos). nat (count - chan))") auto

declare CreateBuffers_loop.simps [simp del]

text \<open>The request: the vector \<^verbatim>\<open>bufferInfos\<close> as it is when \<^verbatim>\<open>ASIOCreateBuffers\<close> is called.\<close>

definition CreateBuffers_bufferInfos :: "int \<times> int \<Rightarrow> ASIOBufferInfo list" where
  "CreateBuffers_bufferInfos ioChannelCounts =
     CreateBuffers_loop False 0 (snd ioChannelCounts)
       (CreateBuffers_loop True 0 (fst ioChannelCounts) [])"

text \<open>
  The driver receives \<^verbatim>\<open>bufferInfos.data()\<close> and the element count: it can overwrite the
  elements of the vector but cannot change its size.
\<close>

definition written_back :: "ASIOBufferInfo list \<Rightarrow> ASIOBufferInfo list \<Rightarrow> ASIOBufferInfo list" where
  "written_back bufferInfos written =
     take (length bufferInfos) written @ drop (length written) bufferInfos"

definition CreateBuffers ::
  "'s driver \<Rightarrow> int \<times> int \<Rightarrow> int \<Rightarrow> ASIOCallbacks \<Rightarrow> 's world \<Rightarrow> ASIOBufferInfo list \<times> 's world" where
  "CreateBuffers drv ioChannelCounts bufferSize callbacks w =
     (let bufferInfos = CreateBuffers_bufferInfos ioChannelCounts;
          ((error, written), s) =
             ASIOCreateBuffers drv bufferInfos bufferSize callbacks (driver_state w);
          (error, w) = PrintError (Ev_ASIOCreateBuffers bufferInfos bufferSize callbacks error)
                         error (w\<lparr>driver_state := s\<rparr>)
      in if error \<noteq> ASE_OK then ([], w) else (written_back bufferInfos written, w))"

subsection \<open>Run\<close>

text \<open>
  The condition of the rate loop's body,
  \<^verbatim>\<open>CanSampleRate(r) && SetSampleRate(r) && GetSampleRate() == r\<close>, with the short-circuit
  evaluation of \<^verbatim>\<open>&&\<close>. An empty \<^verbatim>\<open>std::optional\<close> compares unequal to every value.
\<close>

definition Run_sampleRate_ok :: "'s driver \<Rightarrow> int \<Rightarrow> 's world \<Rightarrow> bool \<times> 's world" where
  "Run_sampleRate_ok drv sampleRate w =
     (case CanSampleRate drv (double_of_int sampleRate) w of
        (False, w) \<Rightarrow> (False, w)
      | (True, w) \<Rightarrow>
          (case SetSampleRate drv (double_of_int sampleRate) w of
             (False, w) \<Rightarrow> (False, w)
           | (True, w) \<Rightarrow>
               (case GetSampleRate drv w of
                  (None, w) \<Rightarrow> (False, w)
                | (Some current, w) \<Rightarrow> (double_eq current (double_of_int sampleRate), w))))"

text \<open>
  The loop \<^verbatim>\<open>for (const auto sampleRate : {...}) if (!(...) && sampleRate == 48000) return false;\<close>
  The result is \<open>False\<close> when the loop leaves \<^verbatim>\<open>Run\<close> with \<^verbatim>\<open>return false\<close>, and \<open>True\<close> when it
  runs to its end.
\<close>

fun Run_sampleRates :: "'s driver \<Rightarrow> int list \<Rightarrow> 's world \<Rightarrow> bool \<times> 's world" where
  "Run_sampleRates drv [] w = (True, w)"
| "Run_sampleRates drv (sampleRate # rest) w =
     (case Run_sampleRate_ok drv sampleRate w of
        (ok, w) \<Rightarrow>
          if \<not> ok \<and> sampleRate = 48000 then (False, w) else Run_sampleRates drv rest w)"

text \<open>The callbacks of \<^verbatim>\<open>Run\<close>: four lambdas with empty bodies, returning \<open>0\<close> or \<^verbatim>\<open>nullptr\<close>.\<close>

definition Run_callbacks :: ASIOCallbacks where
  "Run_callbacks =
     \<lparr>bufferSwitch = (\<lambda>_ _. ()),
      sampleRateDidChange = (\<lambda>_. ()),
      asioMessage = (\<lambda>_ _ _ _. 0),
      bufferSwitchTimeInfo = (\<lambda>_ _ _. 0)\<rparr>"

definition Run :: "'s driver \<Rightarrow> 's world \<Rightarrow> bool \<times> 's world" where
  "Run drv w =
     (case Init drv w of
        (None, w) \<Rightarrow> (False, w)
      | (Some asioDriverInfo, w) \<Rightarrow>
     (case GetChannels drv w of
        (ioChannelCounts, w) \<Rightarrow>
     if fst ioChannelCounts = 0 \<and> snd ioChannelCounts = 0 then (False, w) else
     (case GetBufferSize drv w of
        (None, w) \<Rightarrow> (False, w)
      | (Some bufferSize, w) \<Rightarrow>
     (case GetSampleRate drv w of
        (_, w) \<Rightarrow>
     (case Run_sampleRates drv [44100, 96000, 192000, 48000] w of
        (False, w) \<Rightarrow> (False, w)
      | (True, w) \<Rightarrow>
     (case OutputReady drv w of
        (_, w) \<Rightarrow>
     (case CreateBuffers drv ioChannelCounts (preferred bufferSize) Run_callbacks
             (GetAllChannelInfo drv ioChannelCounts w) of
        (buffers', w) \<Rightarrow>
     if length buffers' = 0 then (False, w) else
     (case GetSampleRate drv w of
        (_, w) \<Rightarrow> (True, GetAllChannelInfo drv ioChannelCounts w)))))))))"


subsection \<open>Shapes of the event sequence\<close>

text \<open>
  The events of one pass through the rate loop's condition for the rate \<open>r\<close>, given the
  error codes \<open>e1\<close>, \<open>e2\<close>, \<open>e3\<close> of the three driver calls and the rate \<open>v\<close> the driver
  reports: the later calls are made only when the earlier ones returned \<^verbatim>\<open>ASE_OK\<close>. The
  condition holds when all three calls return \<^verbatim>\<open>ASE_OK\<close> and the reported rate is \<open>r\<close>.
\<close>

definition rate_attempt_events ::
  "int \<Rightarrow> ASIOError \<Rightarrow> ASIOError \<Rightarrow> ASIOError \<Rightarrow> double \<Rightarrow> event list" where
  "rate_attempt_events r e1 e2 e3 v =
     Ev_ASIOCanSampleRate (double_of_int r) e1 #
     (if e1 = ASE_OK
      then Ev_ASIOSetSampleRate (double_of_int r) e2 #
           (if e2 = ASE_OK then [Ev_ASIOGetSampleRate e3 v] else [])
      else [])"

definition rate_attempt_ok ::
  "int \<Rightarrow> ASIOError \<Rightarrow> ASIOError \<Rightarrow> ASIOError \<Rightarrow> double \<Rightarrow> bool" where
  "rate_attempt_ok r e1 e2 e3 v =
     (e1 = ASE_OK \<and> e2 = ASE_OK \<and> e3 = ASE_OK \<and> double_eq v (double_of_int r))"

text \<open>
  The channel-info queries for the channels \<open>0, ..., count - 1\<close> of one direction, in
  increasing order, with the error codes the driver returned.
\<close>

definition channel_info_events :: "bool \<Rightarrow> int \<Rightarrow> ASIOError list \<Rightarrow> event list" where
  "channel_info_events is_input count errors =
     map (\<lambda>(chan, e). Ev_ASIOGetChannelInfo chan is_input e) (zip [0..count - 1] errors)"


subsection \<open>A driver to run the exerciser on\<close>

text \<open>
  A driver after the scenarios of the specification: \<open>ic\<close> input and \<open>oc\<close> output
  channels, buffer sizes from 64 to 8192 in steps of 64 with 512 preferred, and every
  positive rate up to 96000 supported. Its state is the current sample rate. Every call
  but \<^verbatim>\<open>ASIOOutputReady\<close> and the probing or setting of an unsupported rate returns
  \<^verbatim>\<open>ASE_OK\<close>.
\<close>

definition scenario_supports :: "double \<Rightarrow> bool" where
  "scenario_supports r = (case r of Finite x \<Rightarrow> 0 < x \<and> x \<le> 96000 | _ \<Rightarrow> False)"

definition scenario_driver :: "int \<Rightarrow> int \<Rightarrow> double driver" where
  "scenario_driver ic oc =
     \<lparr>ASIOInit = (\<lambda>info s. ((ASE_OK, info\<lparr>driverVersion := 1, name := ''FlexASIO''\<rparr>), s)),
      ASIOGetChannels = (\<lambda>s. ((ASE_OK, ic, oc), s)),
      ASIOGetBufferSize = (\<lambda>b s.
        ((ASE_OK, \<lparr>min_size = 64, max_size = 8192, preferred = 512, granularity = 64\<rparr>), s)),
      ASIOGetSampleRate = (\<lambda>r s. ((ASE_OK, s), s)),
      ASIOCanSampleRate = (\<lambda>r s. (if scenario_supports r then ASE_OK else ASE_NoClock, s)),
      ASIOSetSampleRate = (\<lambda>r s. if scenario_supports r then (ASE_OK, r) else (ASE_NoClock, s)),
      ASIOOutputReady = (\<lambda>s. (ASE_NotPresent, s)),
      ASIOGetChannelInfo = (\<lambda>chan is_input s.
        ((ASE_OK, \<lparr>channel = chan, isInput = is_input, isActive = False, channelGroup = 0,
                   type = 19, name = ''channel''\<rparr>), s)),
      ASIOCreateBuffers = (\<lambda>infos n cb s. ((ASE_OK, infos), s))\<rparr>"

definition scenario_world :: "double world" where
  "scenario_world = \<lparr>driver_state = Finite 44100, events = []\<rparr>"


section \<open>FlexASIOUtil/portaudio.cpp\<close>

subsection \<open>What the file takes from outside\<close>

text \<open>
  The functions of \<^verbatim>\<open>portaudio.cpp\<close> write numbers, doubles and pointers to streams with the
  \<^verbatim>\<open><<\<close> of the standard library, and they call \<^verbatim>\<open>Find\<close> (\<^verbatim>\<open>find.h\<close>) and
  \<^verbatim>\<open>BitfieldToString\<close>, neither of which is among the sources. These are parameters of
  the model.
\<close>

record formatting =
  show_integer :: "int \<Rightarrow> string"
  show_double :: "double \<Rightarrow> string"
  show_pointer :: "nat \<Rightarrow> string"
  Find :: "int \<Rightarrow> (int \<times> string) list \<Rightarrow> string option"
  BitfieldToString :: "nat \<Rightarrow> (nat \<times> string) list \<Rightarrow> string"

text \<open>
  \<^verbatim>\<open>EnumToString\<close> of \<^verbatim>\<open>string.h\<close>: the number of the enumerator, followed by its name in
  brackets when \<^verbatim>\<open>Find\<close> finds one.
\<close>

definition EnumToString :: "formatting \<Rightarrow> int \<Rightarrow> (int \<times> string) list \<Rightarrow> string" where
  "EnumToString fmt val enumStrings =
     (let result = show_integer fmt val
      in case Find fmt val enumStrings of
           None \<Rightarrow> result
         | Some string \<Rightarrow> ((result @ '' ['') @ string) @ '']'')"

text \<open>
  The PortAudio library is the backend. Its state has the type \<open>'b\<close>; a call takes the
  state and returns its result and the new state. \<^verbatim>\<open>Pa_OpenStream\<close> receives the address
  of a \<^verbatim>\<open>PaStream*\<close> that holds \<^verbatim>\<open>nullptr\<close>, and the model returns the pointer that the
  variable holds after the call next to the error code. \<^verbatim>\<open>PaError\<close> is an \<^verbatim>\<open>int\<close>;
  \<^verbatim>\<open>paNoError\<close> is \<open>0\<close> and \<^verbatim>\<open>paWASAPI\<close> is \<open>13\<close> in \<^verbatim>\<open>portaudio.h\<close>.
\<close>

type_synonym PaError = int

definition paNoError :: PaError where "paNoError = 0"

definition paWASAPI :: int where "paWASAPI = 13"

definition nullptr :: nat where "nullptr = 0"

subsection \<open>Names of enumerators and flags\<close>

text \<open>
  The tables pair the values of the enumerators in \<^verbatim>\<open>portaudio.h\<close>, \<^verbatim>\<open>pa_win_wasapi.h\<close> and
  \<^verbatim>\<open>ksmedia.h\<close> with the names the source gives them, in source order.
\<close>

definition GetHostApiTypeIdString :: "formatting \<Rightarrow> int \<Rightarrow> string" where
  "GetHostApiTypeIdString fmt hostApiTypeId =
     EnumToString fmt hostApiTypeId
       [(0, ''In development''), (1, ''DirectSound''), (2, ''MME''), (3, ''ASIO''),
        (4, ''SoundManager''), (5, ''CoreAudio''), (7, ''OSS''), (8, ''ALSA''), (9, ''AL''),
        (10, ''BeOS''), (11, ''WDMKS''), (12, ''JACK''), (paWASAPI, ''WASAPI''),
        (14, ''AudioScienceHPI'')]"

definition GetSampleFormatString :: "formatting \<Rightarrow> nat \<Rightarrow> string" where
  "GetSampleFormatString fmt sampleFormat =
     (let result = BitfieldToString fmt sampleFormat
        [(0x1, ''Float32''), (0x2, ''Int32''), (0x4, ''Int24''), (0x8, ''Int16''),
         (0x10, ''Int8''), (0x20, ''UInt8''), (0x10000, ''CustomFormat''),
         (0x80000000, ''NonInterleaved'')]
      in result)"

definition GetStreamFlagsString :: "formatting \<Rightarrow> nat \<Rightarrow> string" where
  "GetStreamFlagsString fmt streamFlags =
     BitfieldToString fmt streamFlags
       [(0x1, ''ClipOff''), (0x2, ''DitherOff''), (0x4, ''NeverDropInput''),
        (0x8, ''PrimeOutputBuffersUsingStreamCallback'')]"

definition GetWasapiFlagsString :: "formatting \<Rightarrow> nat \<Rightarrow> string" where
  "GetWasapiFlagsString fmt wasapiFlags =
     BitfieldToString fmt wasapiFlags
       [(0x1, ''Exclusive''), (0x2, ''RedirectHostProcessor''), (0x4, ''UseChannelMask''),
        (0x8, ''Polling''), (0x10, ''ThreadPriority'')]"

definition GetWasapiThreadPriorityString :: "formatting \<Rightarrow> int \<Rightarrow> string" where
  "GetWasapiThreadPriorityString fmt threadPriority =
     EnumToString fmt threadPriority
       [(0, ''None''), (1, ''Audio''), (2, ''Capture''), (3, ''Distribution''), (4, ''Games''),
        (5, ''Playback''), (6, ''ProAudio''), (7, ''WindowManager'')]"

definition GetWasapiStreamCategoryString :: "formatting \<Rightarrow> int \<Rightarrow> string" where
  "GetWasapiStreamCategoryString fmt streamCategory =
     EnumToString fmt streamCategory
       [(0, ''Other''), (3, ''Communications''), (4, ''Alerts''), (5, ''SoundEffects''),
        (6, ''GameEffects''), (7, ''GameMedia''), (8, ''GameChat''), (9, ''Speech''),
        (10, ''Movie''), (11, ''Media'')]"

definition GetWasapiStreamOptionString :: "formatting \<Rightarrow> int \<Rightarrow> string" where
  "GetWasapiStreamOptionString fmt streamOption =
     EnumToString fmt streamOption [(0, ''None''), (1, ''Raw''), (2, ''MatchFormat'')]"

definition GetWaveFormatChannelMaskString :: "formatting \<Rightarrow> nat \<Rightarrow> string" where
  "GetWaveFormatChannelMaskString fmt channelMask =
     BitfieldToString fmt channelMask
       [(0x1, ''Front Left''), (0x2, ''Front Right''), (0x4, ''Front Center''),
        (0x8, ''Low Frequency''), (0x10, ''Back Left''), (0x20, ''Back Right''),
        (0x40, ''Front Left of Center''), (0x80, ''Front Right of Center''),
        (0x100, ''Back Center''), (0x200, ''Side Left''), (0x400, ''Side Right''),
        (0x800, ''Top Center''), (0x1000, ''Top Front Left''), (0x2000, ''Top Front Center''),
        (0x4000, ''Top Front Right''), (0x8000, ''Top Back Left''),
        (0x10000, ''Top Back Center''), (0x20000, ''Top Back Right'')]"

subsection \<open>Stream parameters and their description\<close>

text \<open>
  The memory that \<^verbatim>\<open>hostApiSpecificStreamInfo\<close> points to, read through the layout of
  \<^verbatim>\<open>PaWasapiStreamInfo\<close>. The first three members are those of
  \<^verbatim>\<open>PaUtilHostApiSpecificStreamInfoHeader\<close> (\<open>size'\<close> is the member \<^verbatim>\<open>size\<close>); for a block
  of another host API the other members stand for whatever follows the header.
\<close>

record PaWasapiStreamInfo =
  size' :: nat
  hostApiType :: int
  version :: nat
  flags :: nat
  channelMask :: nat
  hostProcessorOutput :: nat
  hostProcessorInput :: nat
  threadPriority :: int
  streamCategory :: int
  streamOption :: int

text \<open>\<^verbatim>\<open>PaStreamParameters\<close>; a null \<^verbatim>\<open>hostApiSpecificStreamInfo\<close> is \<open>None\<close>.\<close>

record PaStreamParameters =
  device :: int
  channelCount :: int
  sampleFormat :: nat
  suggestedLatency :: double
  hostApiSpecificStreamInfo :: "PaWasapiStreamInfo option"

record 'b portaudio =
  Pa_OpenStream ::
    "PaStreamParameters option \<Rightarrow> PaStreamParameters option \<Rightarrow> double \<Rightarrow> nat \<Rightarrow> nat \<Rightarrow>
     nat \<Rightarrow> nat \<Rightarrow> 'b \<Rightarrow> (PaError \<times> nat) \<times> 'b"
  Pa_CloseStream :: "nat \<Rightarrow> 'b \<Rightarrow> PaError \<times> 'b"
  Pa_StopStream :: "nat \<Rightarrow> 'b \<Rightarrow> PaError \<times> 'b"
  Pa_GetErrorText :: "PaError \<Rightarrow> string"

text \<open>
  The process as the functions below see it: the state of the backend and the lines
  written to the log. \<^verbatim>\<open>Log() << a << b\<close> writes one line.
\<close>

record 'b process =
  backend :: 'b
  logged :: "string list"

definition Log :: "string \<Rightarrow> 'b process \<Rightarrow> 'b process" where
  "Log line p = p\<lparr>logged := logged p @ [line]\<rparr>"

text \<open>
  The stream \<open>result\<close> is the string written so far. The header is read through
  \<^verbatim>\<open>static_cast<const PaUtilHostApiSpecificStreamInfoHeader*>\<close>, the other members through
  \<^verbatim>\<open>static_cast<const PaWasapiStreamInfo*>\<close>, inside \<^verbatim>\<open>if (hostApiType == paWASAPI)\<close>.
\<close>

definition DescribeStreamParameters :: "formatting \<Rightarrow> PaStreamParameters \<Rightarrow> string" where
  "DescribeStreamParameters fmt parameters =
     (let result =
            ''PortAudio stream parameters for device index '' @
            show_integer fmt (device parameters) @ '', '' @
            show_integer fmt (channelCount parameters) @ '' channels, sample format '' @
            GetSampleFormatString fmt (sampleFormat parameters) @ '', suggested latency '' @
            show_double fmt (suggestedLatency parameters) @ ''s''
      in case hostApiSpecificStreamInfo parameters of
           None \<Rightarrow> result
         | Some hostApiSpecificHeader \<Rightarrow>
             (let result = result @
                    '', host API specific: '' @
                    show_integer fmt (int (size' hostApiSpecificHeader)) @
                    '' bytes structure, type '' @
                    GetHostApiTypeIdString fmt (hostApiType hostApiSpecificHeader) @
                    '', version '' @
                    show_integer fmt (int (version hostApiSpecificHeader))
              in if hostApiType hostApiSpecificHeader = paWASAPI
                 then (let wasapiSpecific = hostApiSpecificHeader
                       in result @
                          '', WASAPI specific: flags '' @
                          GetWasapiFlagsString fmt (flags wasapiSpecific) @
                          '', channel mask '' @
                          GetWaveFormatChannelMaskString fmt (channelMask wasapiSpecific) @
                          '', host processor output '' @
                          show_pointer fmt (hostProcessorOutput wasapiSpecific) @
                          '', host processor input '' @
                          show_pointer fmt (hostProcessorInput wasapiSpecific) @
                          '', thread priority '' @
                          GetWasapiThreadPriorityString fmt (threadPriority wasapiSpecific) @
                          '', stream category '' @
                          GetWasapiStreamCategoryString fmt (streamCategory wasapiSpecific) @
                          '', stream option '' @
                          GetWasapiStreamOptionString fmt (streamOption wasapiSpecific))
                 else result))"

text \<open>
  The three sections of a description, each as a function of exactly the values it
  shows: the general section of the four members of \<^verbatim>\<open>PaStreamParameters\<close>, the header
  section of the three header members, and the WASAPI section of the seven members that
  follow the header.
\<close>

definition general_section :: "formatting \<Rightarrow> int \<Rightarrow> int \<Rightarrow> nat \<Rightarrow> double \<Rightarrow> string" where
  "general_section fmt dev channels sformat latency =
     ''PortAudio stream parameters for device index '' @ show_integer fmt dev @ '', '' @
     show_integer fmt channels @ '' channels, sample format '' @
     GetSampleFormatString fmt sformat @ '', suggested latency '' @
     show_double fmt latency @ ''s''"

definition header_section :: "formatting \<Rightarrow> nat \<Rightarrow> int \<Rightarrow> nat \<Rightarrow> string" where
  "header_section fmt bytes api ver =
     '', host API specific: '' @ show_integer fmt (int bytes) @ '' bytes structure, type '' @
     GetHostApiTypeIdString fmt api @ '', version '' @ show_integer fmt (int ver)"

definition wasapi_section ::
  "formatting \<Rightarrow> nat \<Rightarrow> nat \<Rightarrow> nat \<Rightarrow> nat \<Rightarrow> int \<Rightarrow> int \<Rightarrow> int \<Rightarrow> string" where
  "wasapi_section fmt fl chmask hpo hpi priority category opt =
     '', WASAPI specific: flags '' @ GetWasapiFlagsString fmt fl @
     '', channel mask '' @ GetWaveFormatChannelMaskString fmt chmask @
     '', host processor output '' @ show_pointer fmt hpo @
     '', host processor input '' @ show_pointer fmt hpi @
     '', thread priority '' @ GetWasapiThreadPriorityString fmt priority @
     '', stream category '' @ GetWasapiStreamCategoryString fmt category @
     '', stream option '' @ GetWasapiStreamOptionString fmt opt"

subsection \<open>Opening, stopping and closing a stream\<close>

text \<open>
  A function that can throw returns \<open>Inl\<close> of the exception or \<open>Inr\<close> of its result.
  \<^verbatim>\<open>Stream\<close> is the owning handle of \<^verbatim>\<open>portaudio.h\<close>, a \<^verbatim>\<open>std::unique_ptr\<close> around the
  \<^verbatim>\<open>PaStream*\<close>; it is modelled by the pointer it owns.
\<close>

datatype exception = runtime_error string

datatype Stream = Stream nat

definition StreamDeleter ::
  "formatting \<Rightarrow> 'b portaudio \<Rightarrow> nat \<Rightarrow> 'b process \<Rightarrow> (exception + unit) \<times> 'b process" where
  "StreamDeleter fmt pa stream p =
     (let p = Log (''Closing PortAudio stream '' @ show_pointer fmt stream) p;
          (error, b) = Pa_CloseStream pa stream (backend p);
          p = p\<lparr>backend := b\<rparr>
      in if error \<noteq> paNoError
         then (Inr (), Log (''Unable to close PortAudio stream: '' @ Pa_GetErrorText pa error) p)
         else (Inr (), p))"

definition OpenStream ::
  "formatting \<Rightarrow> 'b portaudio \<Rightarrow> PaStreamParameters option \<Rightarrow> PaStreamParameters option \<Rightarrow>
   double \<Rightarrow> nat \<Rightarrow> nat \<Rightarrow> nat \<Rightarrow> nat \<Rightarrow> 'b process \<Rightarrow> (exception + Stream) \<times> 'b process" where
  "OpenStream fmt pa inputParameters outputParameters sampleRate framesPerBuffer streamFlags
     streamCallback userData p =
     (let p = Log ''Opening PortAudio stream with...'' p;
          p = Log (''...input parameters: '' @
                   (case inputParameters of
                      None \<Rightarrow> ''none''
                    | Some parameters \<Rightarrow> DescribeStreamParameters fmt parameters)) p;
          p = Log (''...output parameters: '' @
                   (case outputParameters of
                      None \<Rightarrow> ''none''
                    | Some parameters \<Rightarrow> DescribeStreamParameters fmt parameters)) p;
          p = Log (''...sample rate: '' @ show_double fmt sampleRate @ '' Hz'') p;
          p = Log (''...frames per buffer: '' @ show_integer fmt (int framesPerBuffer)) p;
          p = Log (''...stream flags: '' @ GetStreamFlagsString fmt streamFlags) p;
          p = Log (''...stream callback: '' @ show_pointer fmt streamCallback @
                   '' (user data '' @ show_pointer fmt userData @ '')'') p;
          ((error, stream), b) =
             Pa_OpenStream pa inputParameters outputParameters sampleRate framesPerBuffer
               streamFlags streamCallback userData (backend p);
          p = p\<lparr>backend := b\<rparr>
      in if error \<noteq> paNoError
         then (Inl (runtime_error
                 (''unable to open PortAudio stream: '' @ Pa_GetErrorText pa error)), p)
         else if stream = nullptr
         then (Inl (runtime_error ''Pa_OpenStream() unexpectedly returned null''), p)
         else (Inr (Stream stream),
               Log (''PortAudio stream opened: '' @ show_pointer fmt stream) p))"

definition StreamStopper ::
  "formatting \<Rightarrow> 'b portaudio \<Rightarrow> nat \<Rightarrow> 'b process \<Rightarrow> (exception + unit) \<times> 'b process" where
  "StreamStopper fmt pa stream p =
     (let p = Log (''Stopping PortAudio stream '' @ show_pointer fmt stream) p;
          (error, b) = Pa_StopStream pa stream (backend p);
          p = p\<lparr>backend := b\<rparr>
      in if error \<noteq> paNoError
         then (Inr (), Log (''Unable to stop PortAudio stream: '' @ Pa_GetErrorText pa error) p)
         else (Inr (), p))"

subsection \<open>PortAudioLogger\<close>

text \<open>
  The global \<^verbatim>\<open>loggerReferenceCount\<close> is a \<^verbatim>\<open>size_t\<close>, a word of 32 or 64 bits according to
  the build, whose \<^verbatim>\<open>++\<close> and \<^verbatim>\<open>--\<close> wrap around; the model leaves the width \<open>'a\<close> open.
  \<^verbatim>\<open>debugPrintFunction\<close> is the callback PortAudio holds, \<open>NULL\<close> or \<^verbatim>\<open>DebugPrint\<close>, and
  \<open>debugPrintCalls\<close> lists the calls of \<^verbatim>\<open>PaUtil_SetDebugPrintFunction\<close> made so far. The
  constructor and the destructor hold \<^verbatim>\<open>loggerMutex\<close> while they touch the count, so
  each runs as one step. The count is zero-initialised and PortAudio starts without a
  callback.
\<close>

datatype PaUtilLogCallback = NULL | DebugPrint

record (overloaded) ('a::len) logger_state =
  loggerReferenceCount :: "'a word"
  debugPrintFunction :: PaUtilLogCallback
  debugPrintCalls :: "PaUtilLogCallback list"
  logger_lines :: "string list"

definition PaUtil_SetDebugPrintFunction ::
  "PaUtilLogCallback \<Rightarrow> ('a::len) logger_state \<Rightarrow> 'a logger_state" where
  "PaUtil_SetDebugPrintFunction cb st =
     st\<lparr>debugPrintFunction := cb, debugPrintCalls := debugPrintCalls st @ [cb]\<rparr>"

definition logger_Log :: "string \<Rightarrow> ('a::len) logger_state \<Rightarrow> 'a logger_state" where
  "logger_Log line st = st\<lparr>logger_lines := logger_lines st @ [line]\<rparr>"

text \<open>
  The constructor: \<^verbatim>\<open>if (loggerReferenceCount++ > 0) return;\<close> compares the count before
  the increment. \<open>versionText\<close> is the result of \<^verbatim>\<open>Pa_GetVersionText()\<close>.
\<close>

definition PortAudioLogger_ctor :: "string \<Rightarrow> ('a::len) logger_state \<Rightarrow> 'a logger_state" where
  "PortAudioLogger_ctor versionText st =
     (let st = logger_Log (''PortAudio version: '' @ versionText) st;
          before = loggerReferenceCount st;
          st = st\<lparr>loggerReferenceCount := before + 1\<rparr>
      in if before > 0 then st
         else PaUtil_SetDebugPrintFunction DebugPrint
                (logger_Log ''Enabling PortAudio debug output redirection'' st))"

text \<open>
  The destructor: \<^verbatim>\<open>if (--loggerReferenceCount > 0) return;\<close> compares the count after the
  decrement.
\<close>

definition PortAudioLogger_dtor :: "('a::len) logger_state \<Rightarrow> 'a logger_state" where
  "PortAudioLogger_dtor st =
     (let st = st\<lparr>loggerReferenceCount := loggerReferenceCount st - 1\<rparr>
      in if loggerReferenceCount st > 0 then st
         else PaUtil_SetDebugPrintFunction NULL
                (logger_Log ''Disabling PortAudio debug output redirection'' st))"

definition logger_initial :: "('a::len) logger_state" where
  "logger_initial =
     \<lparr>loggerReferenceCount = 0, debugPrintFunction = NULL, debugPrintCalls = [],
      logger_lines = []\<rparr>"

text \<open>A sequence of constructions and destructions of logger objects, run in order.\<close>

datatype logger_op = Construct | Destroy

fun logger_run :: "string \<Rightarrow> logger_op list \<Rightarrow> ('a::len) logger_state \<Rightarrow> 'a logger_state" where
  "logger_run versionText [] st = st"
| "logger_run versionText (Construct # ops) st =
     logger_run versionText ops (PortAudioLogger_ctor versionText st)"
| "logger_run versionText (Destroy # ops) st =
     logger_run versionText ops (PortAudioLogger_dtor st)"

text \<open>
  The number of live logger objects after a sequence that starts with \<open>n\<close> live objects.
  The result is \<open>None\<close> when the sequence destroys an object while none is live, or when
  it makes \<open>limit\<close> or more objects live at once; \<open>limit\<close> will be the number of values
  of \<^verbatim>\<open>size_t\<close>, which is more than the address space has room for objects.
\<close>

fun live_loggers :: "nat \<Rightarrow> nat \<Rightarrow> logger_op list \<Rightarrow> nat option" where
  "live_loggers limit n [] = Some n"
| "live_loggers limit n (Construct # ops) =
     (if Suc n < limit then live_loggers limit (Suc n) ops else None)"
| "live_loggers limit n (Destroy # ops) =
     (if 0 < n then live_loggers limit (n - 1) ops else None)"

text \<open>
  The calls of \<^verbatim>\<open>PaUtil_SetDebugPrintFunction\<close> that C9 describes: \<^verbatim>\<open>DebugPrint\<close> is set on
  each transition from no live object to one, \<open>NULL\<close> on each transition from one to none.
\<close>

fun redirection_calls :: "nat \<Rightarrow> logger_op list \<Rightarrow> PaUtilLogCallback list" where
  "redirection_calls n [] = []"
| "redirection_calls n (Construct # ops) =
     (if n = 0 then [DebugPrint] else []) @ redirection_calls (Suc n) ops"
| "redirection_calls n (Destroy # ops) =
     (if n = 1 then [NULL] else []) @ redirection_calls (n - 1) ops"


section \<open>Properties of Join\<close>








text \<open>
  Three items of which the second is an empty \<^verbatim>\<open>std::streambuf*\<close>: its insertion writes
  nothing and sets \<^verbatim>\<open>failbit\<close>, so the delimiter and the item after it are not written.
\<close>

lemma Join_failed_insertion:
  "Join [Wrote ''a'', Failed '''', Wrote ''b''] '','' (\<lambda>ins. ins) = ''a,''"
  by (simp add: Join_def JoinStream_def stream_insert_def)





section \<open>Properties of the error names\<close>

lemmas ASE_defs =
  ASE_OK_def ASE_SUCCESS_def ASE_NotPresent_def ASE_HWMalfunction_def
  ASE_InvalidParameter_def ASE_InvalidMode_def ASE_SPNotAdvancing_def
  ASE_NoClock_def ASE_NoMemory_def

lemma ASE_vocabulary_distinct: "distinct ASE_vocabulary"
  by (simp add: ASE_vocabulary_def ASE_defs)

text \<open>
  C1. \<^verbatim>\<open>GetASIOErrorString\<close> is a function defined on every \<^verbatim>\<open>ASIOError\<close> value. It maps
  the nine codes of the fixed vocabulary, in order, to their nine names, which are
  pairwise distinct, and a value is mapped to \<open>''(unknown ASE error code)''\<close> exactly
  when it is none of the nine codes. Every result is one of these ten strings.
\<close>

theorem GetASIOErrorString_total:
  "map GetASIOErrorString ASE_vocabulary = ASE_names \<and>
   distinct ASE_vocabulary \<and> distinct ASE_names \<and>
   ''(unknown ASE error code)'' \<notin> set ASE_names \<and>
   (GetASIOErrorString e = ''(unknown ASE error code)'' \<longleftrightarrow> e \<notin> set ASE_vocabulary) \<and>
   GetASIOErrorString e \<in> set (''(unknown ASE error code)'' # ASE_names)"
proof -
  have names: "map GetASIOErrorString ASE_vocabulary = ASE_names"
    by (simp add: ASE_vocabulary_def ASE_names_def GetASIOErrorString_def ASE_defs)
  have dn: "distinct ASE_names"
    by (simp add: ASE_names_def)
  have un: "''(unknown ASE error code)'' \<notin> set ASE_names"
    by (simp add: ASE_names_def)
  have iff: "GetASIOErrorString e = ''(unknown ASE error code)'' \<longleftrightarrow> e \<notin> set ASE_vocabulary"
    by (simp add: GetASIOErrorString_def ASE_vocabulary_def)
  have mem: "GetASIOErrorString e \<in> set (''(unknown ASE error code)'' # ASE_names)"
    by (simp add: GetASIOErrorString_def ASE_names_def)
  from names ASE_vocabulary_distinct dn un iff mem show ?thesis by blast
qed



section \<open>Properties of the exerciser\<close>

subsection \<open>The buffer request\<close>

lemma CreateBuffers_loop_eq:
  "CreateBuffers_loop b c n acc =
     acc @ map (\<lambda>chan. \<lparr>isInput = b, channelNum = chan, buffers = (0, 0)\<rparr>) [c..n - 1]"
proof (induction b c n acc rule: CreateBuffers_loop.induct)
  case (1 is_input chan count bufferInfos)
  show ?case
  proof (cases "chan < count")
    case True
    then have "[chan..count - 1] = chan # [chan + 1..count - 1]"
      by (simp add: upto_rec1)
    with True 1 show ?thesis
      by (subst CreateBuffers_loop.simps) simp
  next
    case False
    then show ?thesis
      by (subst CreateBuffers_loop.simps) simp
  qed
qed

lemma CreateBuffers_bufferInfos_eq:
  "CreateBuffers_bufferInfos (ic, oc) =
     map (\<lambda>chan. \<lparr>isInput = True, channelNum = chan, buffers = (0, 0)\<rparr>) [0..ic - 1] @
     map (\<lambda>chan. \<lparr>isInput = False, channelNum = chan, buffers = (0, 0)\<rparr>) [0..oc - 1]"
  by (simp add: CreateBuffers_bufferInfos_def CreateBuffers_loop_eq)

subsection \<open>The events of each step\<close>

lemma Init_events:
  "\<exists>e. events (snd (Init drv w)) = events w @ [Ev_ASIOInit e] \<and>
       (fst (Init drv w) \<noteq> None) = (e = ASE_OK)"
  by (auto simp add: Init_def PrintError_def Let_def split: prod.splits)

lemma GetChannels_events:
  "\<exists>e ic oc. events (snd (GetChannels drv w)) = events w @ [Ev_ASIOGetChannels e ic oc] \<and>
       fst (GetChannels drv w) = (if e = ASE_OK then (ic, oc) else (0, 0))"
  by (auto simp add: GetChannels_def PrintError_def Let_def split: prod.splits)

lemma GetBufferSize_events:
  "\<exists>e b. events (snd (GetBufferSize drv w)) = events w @ [Ev_ASIOGetBufferSize e b] \<and>
       fst (GetBufferSize drv w) = (if e = ASE_OK then Some b else None)"
  by (auto simp add: GetBufferSize_def PrintError_def Let_def split: prod.splits)

lemma GetSampleRate_events:
  "\<exists>e v. events (snd (GetSampleRate drv w)) = events w @ [Ev_ASIOGetSampleRate e v] \<and>
       fst (GetSampleRate drv w) = (if e = ASE_OK then Some v else None)"
  by (auto simp add: GetSampleRate_def PrintError_def Let_def split: prod.splits)

lemma CanSampleRate_events:
  "\<exists>e. events (snd (CanSampleRate drv r w)) = events w @ [Ev_ASIOCanSampleRate r e] \<and>
       fst (CanSampleRate drv r w) = (e = ASE_OK)"
  by (auto simp add: CanSampleRate_def PrintError_def Let_def split: prod.splits)

lemma SetSampleRate_events:
  "\<exists>e. events (snd (SetSampleRate drv r w)) = events w @ [Ev_ASIOSetSampleRate r e] \<and>
       fst (SetSampleRate drv r w) = (e = ASE_OK)"
  by (auto simp add: SetSampleRate_def PrintError_def Let_def split: prod.splits)

lemma OutputReady_events:
  "\<exists>e. events (snd (OutputReady drv w)) = events w @ [Ev_ASIOOutputReady e] \<and>
       fst (OutputReady drv w) = (e = ASE_OK)"
  by (auto simp add: OutputReady_def PrintError_def Let_def split: prod.splits)

lemma GetChannelInfo_events:
  "\<exists>e. events (snd (GetChannelInfo drv c b w)) = events w @ [Ev_ASIOGetChannelInfo c b e] \<and>
       (fst (GetChannelInfo drv c b w) \<noteq> None) = (e = ASE_OK)"
  by (auto simp add: GetChannelInfo_def PrintError_def Let_def split: prod.splits)

lemma length_written_back: "length (written_back xs ys) = length xs"
  by (simp add: written_back_def)

lemma CreateBuffers_events:
  "\<exists>e. events (snd (CreateBuffers drv c n cb w)) =
          events w @ [Ev_ASIOCreateBuffers (CreateBuffers_bufferInfos c) n cb e] \<and>
       length (fst (CreateBuffers drv c n cb w)) =
          (if e = ASE_OK then length (CreateBuffers_bufferInfos c) else 0)"
  by (auto simp add: CreateBuffers_def PrintError_def Let_def length_written_back split: prod.splits)

lemma Run_sampleRate_ok_events:
  "\<exists>e1 e2 e3 v.
     events (snd (Run_sampleRate_ok drv r w)) = events w @ rate_attempt_events r e1 e2 e3 v \<and>
     fst (Run_sampleRate_ok drv r w) = rate_attempt_ok r e1 e2 e3 v"
proof -
  obtain e1 where c: "events (snd (CanSampleRate drv (double_of_int r) w)) =
        events w @ [Ev_ASIOCanSampleRate (double_of_int r) e1]"
      "fst (CanSampleRate drv (double_of_int r) w) = (e1 = ASE_OK)"
    using CanSampleRate_events by blast
  define w1 where "w1 = snd (CanSampleRate drv (double_of_int r) w)"
  obtain e2 where s: "events (snd (SetSampleRate drv (double_of_int r) w1)) =
        events w1 @ [Ev_ASIOSetSampleRate (double_of_int r) e2]"
      "fst (SetSampleRate drv (double_of_int r) w1) = (e2 = ASE_OK)"
    using SetSampleRate_events by blast
  define w2 where "w2 = snd (SetSampleRate drv (double_of_int r) w1)"
  obtain e3 v where g: "events (snd (GetSampleRate drv w2)) = events w2 @ [Ev_ASIOGetSampleRate e3 v]"
      "fst (GetSampleRate drv w2) = (if e3 = ASE_OK then Some v else None)"
    using GetSampleRate_events by blast
  have "events (snd (Run_sampleRate_ok drv r w)) = events w @ rate_attempt_events r e1 e2 e3 v \<and>
     fst (Run_sampleRate_ok drv r w) = rate_attempt_ok r e1 e2 e3 v"
    using c s g unfolding w1_def w2_def
    by (auto simp add: Run_sampleRate_ok_def rate_attempt_events_def rate_attempt_ok_def
        split: prod.splits bool.splits option.splits if_splits)
  then show ?thesis by blast
qed

lemma GetAllChannelInfo_loop_events:
  "\<exists>errors. length errors = nat (count - chan) \<and>
     events (GetAllChannelInfo_loop drv b chan count w) =
       events w @ map (\<lambda>(c, e). Ev_ASIOGetChannelInfo c b e) (zip [chan..count - 1] errors)"
proof (induction drv b chan count w rule: GetAllChannelInfo_loop.induct)
  case (1 drv is_input chan count w)
  show ?case
  proof (cases "chan < count")
    case True
    define w1 where "w1 = snd (GetChannelInfo drv chan is_input w)"
    obtain e where e: "events w1 = events w @ [Ev_ASIOGetChannelInfo chan is_input e]"
      using GetChannelInfo_events unfolding w1_def by blast
    from 1 True obtain errors where ih: "length errors = nat (count - (chan + 1))"
      "events (GetAllChannelInfo_loop drv is_input (chan + 1) count w1) =
         events w1 @ map (\<lambda>(c, e). Ev_ASIOGetChannelInfo c is_input e) (zip [chan + 1..count - 1] errors)"
      unfolding w1_def by blast
    have up: "[chan..count - 1] = chan # [chan + 1..count - 1]"
      using True by (simp add: upto_rec1)
    have step: "GetAllChannelInfo_loop drv is_input chan count w =
        GetAllChannelInfo_loop drv is_input (chan + 1) count w1"
      using True unfolding w1_def by (subst GetAllChannelInfo_loop.simps) simp
    have "length (e # errors) = nat (count - chan)"
      using ih(1) True by simp
    moreover have "events (GetAllChannelInfo_loop drv is_input chan count w) =
       events w @ map (\<lambda>(c, e). Ev_ASIOGetChannelInfo c is_input e) (zip [chan..count - 1] (e # errors))"
      using step ih(2) e up by simp
    ultimately show ?thesis by blast
  next
    case False
    then have "GetAllChannelInfo_loop drv is_input chan count w = w"
      by (subst GetAllChannelInfo_loop.simps) simp
    with False show ?thesis by simp
  qed
qed

lemma GetAllChannelInfo_events:
  "\<exists>errors1 errors2. length errors1 = nat ic \<and> length errors2 = nat oc \<and>
     events (GetAllChannelInfo drv (ic, oc) w) =
       events w @ channel_info_events True ic errors1 @ channel_info_events False oc errors2"
proof -
  define w1 where "w1 = GetAllChannelInfo_loop drv True 0 ic w"
  obtain errors1 where a: "length errors1 = nat (ic - 0)"
    "events w1 = events w @ map (\<lambda>(c, e). Ev_ASIOGetChannelInfo c True e) (zip [0..ic - 1] errors1)"
    using GetAllChannelInfo_loop_events unfolding w1_def by blast
  obtain errors2 where b: "length errors2 = nat (oc - 0)"
    "events (GetAllChannelInfo_loop drv False 0 oc w1) =
       events w1 @ map (\<lambda>(c, e). Ev_ASIOGetChannelInfo c False e) (zip [0..oc - 1] errors2)"
    using GetAllChannelInfo_loop_events by blast
  have "length errors1 = nat ic \<and> length errors2 = nat oc \<and>
     events (GetAllChannelInfo drv (ic, oc) w) =
       events w @ channel_info_events True ic errors1 @ channel_info_events False oc errors2"
    using a b by (simp add: GetAllChannelInfo_def channel_info_events_def w1_def)
  then show ?thesis by blast
qed

lemma Run_sampleRates_eq:
  "Run_sampleRates drv [44100, 96000, 192000, 48000] w =
     Run_sampleRate_ok drv 48000
       (snd (Run_sampleRate_ok drv 192000
          (snd (Run_sampleRate_ok drv 96000
             (snd (Run_sampleRate_ok drv 44100 w))))))"
  by (simp split: prod.splits)


lemma Run_unfold:
  "Run drv w =
     (let w1 = snd (Init drv w);
          c = fst (GetChannels drv w1); w2 = snd (GetChannels drv w1);
          b = fst (GetBufferSize drv w2); w3 = snd (GetBufferSize drv w2);
          w4 = snd (GetSampleRate drv w3);
          w5 = snd (Run_sampleRates drv [44100, 96000, 192000, 48000] w4);
          w6 = snd (OutputReady drv w5);
          w7 = GetAllChannelInfo drv c w6;
          w8 = snd (CreateBuffers drv c (preferred (the b)) Run_callbacks w7);
          w9 = snd (GetSampleRate drv w8)
      in if fst (Init drv w) = None then (False, w1)
         else if c = (0, 0) then (False, w2)
         else if b = None then (False, w3)
         else if \<not> fst (Run_sampleRates drv [44100, 96000, 192000, 48000] w4) then (False, w5)
         else if fst (CreateBuffers drv c (preferred (the b)) Run_callbacks w7) = [] then (False, w8)
         else (True, GetAllChannelInfo drv c w9))"
  by (auto simp add: Run_def Let_def case_prod_beta prod_eq_iff simp del: Run_sampleRates.simps
      split: option.splits bool.splits)

lemma Run_pass_shape:
  assumes "fst (Run drv w)"
  shows "\<exists>ic oc b e0 v0 a1 b1 c1 d1 a2 b2 c2 d2 a3 b3 c3 d3 v4 e5 errors1 errors2 e6 v6 errors3 errors4.
    events (snd (Run drv w)) = events w @
      [Ev_ASIOInit ASE_OK, Ev_ASIOGetChannels ASE_OK ic oc, Ev_ASIOGetBufferSize ASE_OK b,
       Ev_ASIOGetSampleRate e0 v0] @
      rate_attempt_events 44100 a1 b1 c1 d1 @
      rate_attempt_events 96000 a2 b2 c2 d2 @
      rate_attempt_events 192000 a3 b3 c3 d3 @
      rate_attempt_events 48000 ASE_OK ASE_OK ASE_OK v4 @
      [Ev_ASIOOutputReady e5] @
      channel_info_events True ic errors1 @ channel_info_events False oc errors2 @
      [Ev_ASIOCreateBuffers (CreateBuffers_bufferInfos (ic, oc)) (preferred b) Run_callbacks ASE_OK,
       Ev_ASIOGetSampleRate e6 v6] @
      channel_info_events True ic errors3 @ channel_info_events False oc errors4 \<and>
    double_eq v4 (double_of_int 48000) \<and> (ic, oc) \<noteq> (0, 0) \<and>
    CreateBuffers_bufferInfos (ic, oc) \<noteq> [] \<and>
    length errors1 = nat ic \<and> length errors2 = nat oc \<and>
    length errors3 = nat ic \<and> length errors4 = nat oc"
proof -
  define w1 where "w1 = snd (Init drv w)"
  define c where "c = fst (GetChannels drv w1)"
  define w2 where "w2 = snd (GetChannels drv w1)"
  define bo where "bo = fst (GetBufferSize drv w2)"
  define w3 where "w3 = snd (GetBufferSize drv w2)"
  define w4 where "w4 = snd (GetSampleRate drv w3)"
  define r1 where "r1 = snd (Run_sampleRate_ok drv 44100 w4)"
  define r2 where "r2 = snd (Run_sampleRate_ok drv 96000 r1)"
  define r3 where "r3 = snd (Run_sampleRate_ok drv 192000 r2)"
  define w5 where "w5 = snd (Run_sampleRate_ok drv 48000 r3)"
  define w6 where "w6 = snd (OutputReady drv w5)"
  define w7 where "w7 = GetAllChannelInfo drv c w6"
  define w8 where "w8 = snd (CreateBuffers drv c (preferred (the bo)) Run_callbacks w7)"
  define w9 where "w9 = snd (GetSampleRate drv w8)"
  define w10 where "w10 = GetAllChannelInfo drv c w9"
  have loop: "Run_sampleRates drv [44100, 96000, 192000, 48000] w4 = Run_sampleRate_ok drv 48000 r3"
    unfolding r1_def r2_def r3_def by (rule Run_sampleRates_eq)
  from assms have pass:
    "fst (Init drv w) \<noteq> None" "c \<noteq> (0, 0)" "bo \<noteq> None"
    "fst (Run_sampleRate_ok drv 48000 r3)"
    "fst (CreateBuffers drv c (preferred (the bo)) Run_callbacks w7) \<noteq> []"
    and final: "snd (Run drv w) = w10"
    unfolding Run_unfold loop [symmetric] w1_def c_def w2_def bo_def w3_def w4_def w6_def w7_def
      w8_def w9_def w10_def w5_def loop
    by (simp_all add: Let_def split: if_splits)
  obtain ic oc where c: "c = (ic, oc)" by (cases c)
  obtain b where b: "bo = Some b" using pass(3) by blast
  have e1: "events w1 = events w @ [Ev_ASIOInit ASE_OK]"
    using Init_events [of drv w] pass(1) unfolding w1_def by auto
  have e2: "events w2 = events w1 @ [Ev_ASIOGetChannels ASE_OK ic oc]"
    using GetChannels_events [of drv w1] pass(2) c unfolding w2_def c_def
    by (auto split: if_splits)
  have e3: "events w3 = events w2 @ [Ev_ASIOGetBufferSize ASE_OK b]"
    using GetBufferSize_events [of drv w2] b unfolding w3_def bo_def
    by (auto split: if_splits)
  obtain e0 v0 where e4: "events w4 = events w3 @ [Ev_ASIOGetSampleRate e0 v0]"
    using GetSampleRate_events [of drv w3] unfolding w4_def by blast
  obtain a1 b1 c1 d1 where a1: "events r1 = events w4 @ rate_attempt_events 44100 a1 b1 c1 d1"
    using Run_sampleRate_ok_events [of drv 44100 w4] unfolding r1_def by blast
  obtain a2 b2 c2 d2 where a2: "events r2 = events r1 @ rate_attempt_events 96000 a2 b2 c2 d2"
    using Run_sampleRate_ok_events [of drv 96000 r1] unfolding r2_def by blast
  obtain a3 b3 c3 d3 where a3: "events r3 = events r2 @ rate_attempt_events 192000 a3 b3 c3 d3"
    using Run_sampleRate_ok_events [of drv 192000 r2] unfolding r3_def by blast
  obtain a4 b4 c4 v4 where a4: "events w5 = events r3 @ rate_attempt_events 48000 a4 b4 c4 v4"
    and ok4: "rate_attempt_ok 48000 a4 b4 c4 v4"
    using Run_sampleRate_ok_events [of drv 48000 r3] pass(4) unfolding w5_def by auto
  from ok4 have ok4': "a4 = ASE_OK" "b4 = ASE_OK" "c4 = ASE_OK" "double_eq v4 (double_of_int 48000)"
    by (simp_all add: rate_attempt_ok_def)
  obtain e5 where e6: "events w6 = events w5 @ [Ev_ASIOOutputReady e5]"
    using OutputReady_events [of drv w5] unfolding w6_def by blast
  obtain errors1 errors2 where e7: "length errors1 = nat ic" "length errors2 = nat oc"
     "events w7 = events w6 @ channel_info_events True ic errors1 @ channel_info_events False oc errors2"
    using GetAllChannelInfo_events [of ic oc drv w6] unfolding w7_def c by blast
  obtain e where e8: "events w8 = events w7 @
        [Ev_ASIOCreateBuffers (CreateBuffers_bufferInfos (ic, oc)) (preferred b) Run_callbacks e]"
    and len: "length (fst (CreateBuffers drv c (preferred (the bo)) Run_callbacks w7)) =
          (if e = ASE_OK then length (CreateBuffers_bufferInfos (ic, oc)) else 0)"
    using CreateBuffers_events [of drv c "preferred (the bo)" Run_callbacks w7] b c
    unfolding w8_def by auto
  from len pass(5) have ok8: "e = ASE_OK" "CreateBuffers_bufferInfos (ic, oc) \<noteq> []"
    by (auto split: if_splits)
  obtain e6 v6 where e9: "events w9 = events w8 @ [Ev_ASIOGetSampleRate e6 v6]"
    using GetSampleRate_events [of drv w8] unfolding w9_def by blast
  obtain errors3 errors4 where e10: "length errors3 = nat ic" "length errors4 = nat oc"
     "events w10 = events w9 @ channel_info_events True ic errors3 @ channel_info_events False oc errors4"
    using GetAllChannelInfo_events [of ic oc drv w9] unfolding w10_def c by blast
  have nz: "(ic, oc) \<noteq> (0, 0)"
    using pass(2) c by simp
  have tr: "events (snd (Run drv w)) = events w @
      [Ev_ASIOInit ASE_OK, Ev_ASIOGetChannels ASE_OK ic oc, Ev_ASIOGetBufferSize ASE_OK b,
       Ev_ASIOGetSampleRate e0 v0] @
      rate_attempt_events 44100 a1 b1 c1 d1 @
      rate_attempt_events 96000 a2 b2 c2 d2 @
      rate_attempt_events 192000 a3 b3 c3 d3 @
      rate_attempt_events 48000 ASE_OK ASE_OK ASE_OK v4 @
      [Ev_ASIOOutputReady e5] @
      channel_info_events True ic errors1 @ channel_info_events False oc errors2 @
      [Ev_ASIOCreateBuffers (CreateBuffers_bufferInfos (ic, oc)) (preferred b) Run_callbacks ASE_OK,
       Ev_ASIOGetSampleRate e6 v6] @
      channel_info_events True ic errors3 @ channel_info_events False oc errors4"
    unfolding final e10 e9 e8 e7 e6 a4 a3 a2 a1 e4 e3 e2 e1 ok4' ok8 by simp
  show ?thesis
    by (intro exI conjI) (rule tr ok4'(4) nz ok8(2) e7(1,2) e10(1,2))+
qed

subsection \<open>The exerciser on the scenario driver\<close>

lemmas step_defs = Init_def GetChannels_def GetBufferSize_def GetSampleRate_def CanSampleRate_def
  SetSampleRate_def OutputReady_def GetChannelInfo_def CreateBuffers_def PrintError_def
  GetAllChannelInfo_def CreateBuffers_bufferInfos_def Run_sampleRate_ok_def written_back_def
  double_of_int_def LONG_MIN_def Let_def GetAllChannelInfo_loop.simps CreateBuffers_loop.simps

lemmas scenario_defs = scenario_driver_def scenario_world_def scenario_supports_def

lemma Let_weak_cong: "a = b \<Longrightarrow> Let a f = Let b f"
  by simp

lemma scenario_run:
  "Run (scenario_driver 2 2) scenario_world =
     (True, \<lparr>driver_state = Finite 48000,
       events =
        [Ev_ASIOInit ASE_OK, Ev_ASIOGetChannels ASE_OK 2 2,
         Ev_ASIOGetBufferSize ASE_OK
           \<lparr>min_size = 64, max_size = 8192, preferred = 512, granularity = 64\<rparr>,
         Ev_ASIOGetSampleRate ASE_OK (Finite 44100),
         Ev_ASIOCanSampleRate (Finite 44100) ASE_OK,
         Ev_ASIOSetSampleRate (Finite 44100) ASE_OK,
         Ev_ASIOGetSampleRate ASE_OK (Finite 44100),
         Ev_ASIOCanSampleRate (Finite 96000) ASE_OK,
         Ev_ASIOSetSampleRate (Finite 96000) ASE_OK,
         Ev_ASIOGetSampleRate ASE_OK (Finite 96000),
         Ev_ASIOCanSampleRate (Finite 192000) ASE_NoClock,
         Ev_ASIOCanSampleRate (Finite 48000) ASE_OK,
         Ev_ASIOSetSampleRate (Finite 48000) ASE_OK,
         Ev_ASIOGetSampleRate ASE_OK (Finite 48000),
         Ev_ASIOOutputReady ASE_NotPresent,
         Ev_ASIOGetChannelInfo 0 True ASE_OK, Ev_ASIOGetChannelInfo 1 True ASE_OK,
         Ev_ASIOGetChannelInfo 0 False ASE_OK, Ev_ASIOGetChannelInfo 1 False ASE_OK,
         Ev_ASIOCreateBuffers
           [\<lparr>isInput = True, channelNum = 0, buffers = (0, 0)\<rparr>,
            \<lparr>isInput = True, channelNum = 1, buffers = (0, 0)\<rparr>,
            \<lparr>isInput = False, channelNum = 0, buffers = (0, 0)\<rparr>,
            \<lparr>isInput = False, channelNum = 1, buffers = (0, 0)\<rparr>]
           512 Run_callbacks ASE_OK,
         Ev_ASIOGetSampleRate ASE_OK (Finite 48000),
         Ev_ASIOGetChannelInfo 0 True ASE_OK, Ev_ASIOGetChannelInfo 1 True ASE_OK,
         Ev_ASIOGetChannelInfo 0 False ASE_OK, Ev_ASIOGetChannelInfo 1 False ASE_OK]\<rparr>)"
  by (simp add: Run_def step_defs scenario_defs ASE_defs)

subsection \<open>The buffer-creation request\<close>

text \<open>
  C6. For every pair of channel counts \<open>(ic, oc)\<close>, neither of them negative, the request
  that \<^verbatim>\<open>CreateBuffers\<close> builds and passes to \<^verbatim>\<open>ASIOCreateBuffers\<close> has exactly \<open>ic + oc\<close>
  entries: first the input channels \<open>0, ..., ic - 1\<close> in increasing order, then the output
  channels \<open>0, ..., oc - 1\<close> in increasing order. No (direction, index) pair occurs twice,
  and every index is valid for its direction.
\<close>

theorem CreateBuffers_request:
  assumes "0 \<le> ic" and "0 \<le> oc"
  shows "int (length (CreateBuffers_bufferInfos (ic, oc))) = ic + oc \<and>
   CreateBuffers_bufferInfos (ic, oc) =
     map (\<lambda>chan. \<lparr>isInput = True, channelNum = chan, buffers = (0, 0)\<rparr>) [0..ic - 1] @
     map (\<lambda>chan. \<lparr>isInput = False, channelNum = chan, buffers = (0, 0)\<rparr>) [0..oc - 1] \<and>
   distinct (map (\<lambda>b. (isInput b, channelNum b)) (CreateBuffers_bufferInfos (ic, oc))) \<and>
   (\<forall>b \<in> set (CreateBuffers_bufferInfos (ic, oc)).
      0 \<le> channelNum b \<and> channelNum b < (if isInput b then ic else oc)) \<and>
   (\<exists>error. events (snd (CreateBuffers drv (ic, oc) n cb w)) =
      events w @ [Ev_ASIOCreateBuffers (CreateBuffers_bufferInfos (ic, oc)) n cb error])"
proof -
  have len: "int (length (CreateBuffers_bufferInfos (ic, oc))) = ic + oc"
    using assms by (simp add: CreateBuffers_bufferInfos_eq)
  have dist: "distinct (map (\<lambda>b. (isInput b, channelNum b)) (CreateBuffers_bufferInfos (ic, oc)))"
    by (auto simp add: CreateBuffers_bufferInfos_eq distinct_map inj_on_def comp_def)
  have valid: "\<forall>b \<in> set (CreateBuffers_bufferInfos (ic, oc)).
      0 \<le> channelNum b \<and> channelNum b < (if isInput b then ic else oc)"
    by (auto simp add: CreateBuffers_bufferInfos_eq)
  have call: "\<exists>error. events (snd (CreateBuffers drv (ic, oc) n cb w)) =
      events w @ [Ev_ASIOCreateBuffers (CreateBuffers_bufferInfos (ic, oc)) n cb error]"
    using CreateBuffers_events [of drv "(ic, oc)" n cb w] by blast
  from len CreateBuffers_bufferInfos_eq [of ic oc] dist valid call show ?thesis
    by (intro conjI)
qed

text \<open>The request for two input channels and one output channel.\<close>

theorem CreateBuffers_request_witness:
  "(0::int) \<le> 2 \<and> (0::int) \<le> 1 \<and>
   CreateBuffers_bufferInfos (2, 1) =
     [\<lparr>isInput = True, channelNum = 0, buffers = (0, 0)\<rparr>,
      \<lparr>isInput = True, channelNum = 1, buffers = (0, 0)\<rparr>,
      \<lparr>isInput = False, channelNum = 0, buffers = (0, 0)\<rparr>] \<and>
   int (length (CreateBuffers_bufferInfos (2, 1))) = 2 + 1 \<and>
   events (snd (CreateBuffers (scenario_driver 2 1) (2, 1) 512 Run_callbacks scenario_world)) =
     [Ev_ASIOCreateBuffers (CreateBuffers_bufferInfos (2, 1)) 512 Run_callbacks ASE_OK]"
proof -
  have ic: "(0::int) \<le> 2" and oc: "(0::int) \<le> 1"
    by simp_all
  from CreateBuffers_request [OF ic oc, of "scenario_driver 2 1" 512 Run_callbacks scenario_world]
  show ?thesis
    by (simp add: upto_rec1 CreateBuffers_def PrintError_def scenario_defs Let_def)
qed

subsection \<open>The sequence of Run and its verdict\<close>

text \<open>
  C2, as worded, promises \<open>True\<close> whenever none of the five mandatory steps fails. On the
  scenario driver with no input and no output channel every driver call returns
  \<^verbatim>\<open>ASE_OK\<close>, and \<^verbatim>\<open>Run\<close> returns \<open>False\<close> right after the channel query.
\<close>

theorem Run_zero_channels_counterexample:
  "Run (scenario_driver 0 0) scenario_world =
     (False, \<lparr>driver_state = Finite 44100,
              events = [Ev_ASIOInit ASE_OK, Ev_ASIOGetChannels ASE_OK 0 0]\<rparr>)"
  by (simp add: Run_def step_defs scenario_defs)

text \<open>
  C2, as the code has it. A run that returns \<open>True\<close> has called the driver in this order:
  initialisation, channel counts, buffer size, sample rate; the probe, setting and query
  of each of the rates 44100, 96000, 192000 and 48000 (each attempt stopping at its first
  refused call); output-ready; the channel info of every input channel and then of every
  output channel; buffer creation for all channels with the preferred size and the no-op
  callbacks; and once more the sample rate and every channel info. In such a run the
  mandatory calls returned \<^verbatim>\<open>ASE_OK\<close>, some channel count was not zero and the request was
  not empty. \<^verbatim>\<open>Run\<close> returns \<open>True\<close> exactly when \<^verbatim>\<open>Init\<close> yields a value, \<^verbatim>\<open>GetChannels\<close> yields
  something other than \<open>(0, 0)\<close>, \<^verbatim>\<open>GetBufferSize\<close> yields a value, the rate loop does not
  leave with \<^verbatim>\<open>return false\<close> and \<^verbatim>\<open>CreateBuffers\<close> yields a non-empty vector; so it returns
  \<open>False\<close> also when the driver reports no channel at all, or no positive count.
\<close>

theorem Run_sequence_and_verdict:
  "(fst (Run drv w) \<longrightarrow>
     (\<exists>ic oc b e0 v0 a1 b1 c1 d1 a2 b2 c2 d2 a3 b3 c3 d3 v4 e5 errors1 errors2 e6 v6 errors3 errors4.
        events (snd (Run drv w)) = events w @
          [Ev_ASIOInit ASE_OK, Ev_ASIOGetChannels ASE_OK ic oc, Ev_ASIOGetBufferSize ASE_OK b,
           Ev_ASIOGetSampleRate e0 v0] @
          rate_attempt_events 44100 a1 b1 c1 d1 @
          rate_attempt_events 96000 a2 b2 c2 d2 @
          rate_attempt_events 192000 a3 b3 c3 d3 @
          rate_attempt_events 48000 ASE_OK ASE_OK ASE_OK v4 @
          [Ev_ASIOOutputReady e5] @
          channel_info_events True ic errors1 @ channel_info_events False oc errors2 @
          [Ev_ASIOCreateBuffers (CreateBuffers_bufferInfos (ic, oc)) (preferred b) Run_callbacks ASE_OK,
           Ev_ASIOGetSampleRate e6 v6] @
          channel_info_events True ic errors3 @ channel_info_events False oc errors4 \<and>
        double_eq v4 (double_of_int 48000) \<and> (ic, oc) \<noteq> (0, 0) \<and>
        CreateBuffers_bufferInfos (ic, oc) \<noteq> [] \<and>
        length errors1 = nat ic \<and> length errors2 = nat oc \<and>
        length errors3 = nat ic \<and> length errors4 = nat oc)) \<and>
   fst (Run drv w) =
     (let w1 = snd (Init drv w);
          c = fst (GetChannels drv w1); w2 = snd (GetChannels drv w1);
          b = fst (GetBufferSize drv w2); w3 = snd (GetBufferSize drv w2);
          w4 = snd (GetSampleRate drv w3);
          w5 = snd (Run_sampleRates drv [44100, 96000, 192000, 48000] w4);
          w6 = snd (OutputReady drv w5);
          w7 = GetAllChannelInfo drv c w6
      in fst (Init drv w) \<noteq> None \<and> c \<noteq> (0, 0) \<and> b \<noteq> None \<and>
         fst (Run_sampleRates drv [44100, 96000, 192000, 48000] w4) \<and>
         fst (CreateBuffers drv c (preferred (the b)) Run_callbacks w7) \<noteq> [])"
proof (rule conjI)
  show "fst (Run drv w) =
     (let w1 = snd (Init drv w);
          c = fst (GetChannels drv w1); w2 = snd (GetChannels drv w1);
          b = fst (GetBufferSize drv w2); w3 = snd (GetBufferSize drv w2);
          w4 = snd (GetSampleRate drv w3);
          w5 = snd (Run_sampleRates drv [44100, 96000, 192000, 48000] w4);
          w6 = snd (OutputReady drv w5);
          w7 = GetAllChannelInfo drv c w6
      in fst (Init drv w) \<noteq> None \<and> c \<noteq> (0, 0) \<and> b \<noteq> None \<and>
         fst (Run_sampleRates drv [44100, 96000, 192000, 48000] w4) \<and>
         fst (CreateBuffers drv c (preferred (the b)) Run_callbacks w7) \<noteq> [])"
    unfolding Run_unfold by (simp add: Let_def del: Run_sampleRates.simps)
qed (rule impI, rule Run_pass_shape)

text \<open>The run on the scenario driver with two input and two output channels passes.\<close>

theorem Run_sequence_and_verdict_witness:
  "fst (Run (scenario_driver 2 2) scenario_world) \<and>
   length (events (snd (Run (scenario_driver 2 2) scenario_world))) = 25 \<and>
   take 3 (events (snd (Run (scenario_driver 2 2) scenario_world))) =
     [Ev_ASIOInit ASE_OK, Ev_ASIOGetChannels ASE_OK 2 2,
      Ev_ASIOGetBufferSize ASE_OK
        \<lparr>min_size = 64, max_size = 8192, preferred = 512, granularity = 64\<rparr>]"
proof -
  have "fst (Run (scenario_driver 2 2) scenario_world)"
    unfolding Run_sequence_and_verdict [of "scenario_driver 2 2" scenario_world, THEN conjunct2]
    by (simp add: step_defs scenario_defs ASE_defs cong: Let_weak_cong)
  then show ?thesis
    by (simp add: scenario_run)
qed

subsection \<open>The rate loop\<close>

text \<open>
  C3. Each rate \<open>r\<close> of the loop is checked by \<^verbatim>\<open>ASIOCanSampleRate(r)\<close>, then
  \<^verbatim>\<open>ASIOSetSampleRate(r)\<close>, then \<^verbatim>\<open>ASIOGetSampleRate\<close> compared with \<open>r\<close>, a later call being made
  only when the earlier ones returned \<^verbatim>\<open>ASE_OK\<close>; the check holds when all three return
  \<^verbatim>\<open>ASE_OK\<close> and the reported rate equals \<open>r\<close>. The loop over 44100, 96000, 192000, 48000
  performs the four checks in this order and its verdict is the verdict of the check of
  48000, whatever the checks of the other three rates gave. A run that returns \<open>True\<close> has
  passed the loop.
\<close>

theorem Run_sampleRates_verdict:
  "(\<exists>e1 e2 e3 v.
      events (snd (Run_sampleRate_ok drv r w)) = events w @ rate_attempt_events r e1 e2 e3 v \<and>
      fst (Run_sampleRate_ok drv r w) = rate_attempt_ok r e1 e2 e3 v) \<and>
   Run_sampleRates drv [44100, 96000, 192000, 48000] w =
     Run_sampleRate_ok drv 48000
       (snd (Run_sampleRate_ok drv 192000
          (snd (Run_sampleRate_ok drv 96000
             (snd (Run_sampleRate_ok drv 44100 w)))))) \<and>
   (fst (Run drv w0) \<longrightarrow>
      fst (Run_sampleRates drv [44100, 96000, 192000, 48000]
             (snd (GetSampleRate drv (snd (GetBufferSize drv
                (snd (GetChannels drv (snd (Init drv w0))))))))))"
proof (intro conjI)
  show "fst (Run drv w0) \<longrightarrow>
      fst (Run_sampleRates drv [44100, 96000, 192000, 48000]
             (snd (GetSampleRate drv (snd (GetBufferSize drv
                (snd (GetChannels drv (snd (Init drv w0)))))))))"
    unfolding Run_unfold by (simp add: Let_def del: Run_sampleRates.simps split: if_splits)
qed (rule Run_sampleRate_ok_events, rule Run_sampleRates_eq)

text \<open>
  On the scenario driver, which refuses 192000, the loop passes and so does the run.
\<close>

theorem Run_sampleRates_verdict_witness:
  "fst (Run (scenario_driver 2 2) scenario_world) \<and>
   Run_sampleRates (scenario_driver 2 2) [44100, 96000, 192000, 48000]
     \<lparr>driver_state = Finite 44100, events = []\<rparr> =
     (True, \<lparr>driver_state = Finite 48000,
        events =
          [Ev_ASIOCanSampleRate (Finite 44100) ASE_OK, Ev_ASIOSetSampleRate (Finite 44100) ASE_OK,
           Ev_ASIOGetSampleRate ASE_OK (Finite 44100),
           Ev_ASIOCanSampleRate (Finite 96000) ASE_OK, Ev_ASIOSetSampleRate (Finite 96000) ASE_OK,
           Ev_ASIOGetSampleRate ASE_OK (Finite 96000),
           Ev_ASIOCanSampleRate (Finite 192000) ASE_NoClock,
           Ev_ASIOCanSampleRate (Finite 48000) ASE_OK, Ev_ASIOSetSampleRate (Finite 48000) ASE_OK,
           Ev_ASIOGetSampleRate ASE_OK (Finite 48000)]\<rparr>)"
proof -
  have pass: "fst (Run (scenario_driver 2 2) scenario_world)"
    by (simp add: scenario_run)
  have "Run_sampleRates (scenario_driver 2 2) [44100, 96000, 192000, 48000]
          \<lparr>driver_state = Finite 44100, events = []\<rparr> =
        Run_sampleRate_ok (scenario_driver 2 2) 48000
          (snd (Run_sampleRate_ok (scenario_driver 2 2) 192000
             (snd (Run_sampleRate_ok (scenario_driver 2 2) 96000
                (snd (Run_sampleRate_ok (scenario_driver 2 2) 44100
                   \<lparr>driver_state = Finite 44100, events = []\<rparr>))))))"
    using Run_sampleRates_verdict [of "scenario_driver 2 2" 48000
        "\<lparr>driver_state = Finite 44100, events = []\<rparr>" scenario_world]
    by (elim conjE)
  also have "\<dots> = (True, \<lparr>driver_state = Finite 48000,
        events =
          [Ev_ASIOCanSampleRate (Finite 44100) ASE_OK, Ev_ASIOSetSampleRate (Finite 44100) ASE_OK,
           Ev_ASIOGetSampleRate ASE_OK (Finite 44100),
           Ev_ASIOCanSampleRate (Finite 96000) ASE_OK, Ev_ASIOSetSampleRate (Finite 96000) ASE_OK,
           Ev_ASIOGetSampleRate ASE_OK (Finite 96000),
           Ev_ASIOCanSampleRate (Finite 192000) ASE_NoClock,
           Ev_ASIOCanSampleRate (Finite 48000) ASE_OK, Ev_ASIOSetSampleRate (Finite 48000) ASE_OK,
           Ev_ASIOGetSampleRate ASE_OK (Finite 48000)]\<rparr>)"
    by (simp add: step_defs scenario_defs ASE_defs)
  finally have loop: "Run_sampleRates (scenario_driver 2 2) [44100, 96000, 192000, 48000]
          \<lparr>driver_state = Finite 44100, events = []\<rparr> = (True, \<lparr>driver_state = Finite 48000,
        events =
          [Ev_ASIOCanSampleRate (Finite 44100) ASE_OK, Ev_ASIOSetSampleRate (Finite 44100) ASE_OK,
           Ev_ASIOGetSampleRate ASE_OK (Finite 44100),
           Ev_ASIOCanSampleRate (Finite 96000) ASE_OK, Ev_ASIOSetSampleRate (Finite 96000) ASE_OK,
           Ev_ASIOGetSampleRate ASE_OK (Finite 96000),
           Ev_ASIOCanSampleRate (Finite 192000) ASE_NoClock,
           Ev_ASIOCanSampleRate (Finite 48000) ASE_OK, Ev_ASIOSetSampleRate (Finite 48000) ASE_OK,
           Ev_ASIOGetSampleRate ASE_OK (Finite 48000)]\<rparr>)" .
  from pass loop show ?thesis by (rule conjI)
qed

subsection \<open>Success is ASE_OK\<close>





section \<open>Properties of portaudio.cpp\<close>

subsection \<open>OpenStream\<close>

text \<open>
  C4. For every combination of parameters and every behaviour of the backend,
  \<^verbatim>\<open>OpenStream\<close> calls \<^verbatim>\<open>Pa_OpenStream\<close> once and then either throws or returns a \<^verbatim>\<open>Stream\<close>
  that owns the pointer the backend stored: it throws when the backend reports an error,
  and when the backend reports success and left the pointer null; otherwise the handle
  owns that non-null pointer. In no case is the result a handle around \<^verbatim>\<open>nullptr\<close>.
\<close>

theorem OpenStream_never_null:
  "fst (OpenStream fmt pa ip op rate frames fl cb ud p) =
     (let (error, stream) = fst (Pa_OpenStream pa ip op rate frames fl cb ud (backend p))
      in if error \<noteq> paNoError
         then Inl (runtime_error (''unable to open PortAudio stream: '' @ Pa_GetErrorText pa error))
         else if stream = nullptr
         then Inl (runtime_error ''Pa_OpenStream() unexpectedly returned null'')
         else Inr (Stream stream)) \<and>
   fst (OpenStream fmt pa ip op rate frames fl cb ud p) \<noteq> Inr (Stream nullptr) \<and>
   backend (snd (OpenStream fmt pa ip op rate frames fl cb ud p)) =
     snd (Pa_OpenStream pa ip op rate frames fl cb ud (backend p))"
  by (simp add: OpenStream_def Log_def Let_def case_prod_beta)

subsection \<open>Stopping and closing\<close>

text \<open>
  C5. \<^verbatim>\<open>StreamStopper::operator()\<close> and \<^verbatim>\<open>StreamDeleter::operator()\<close> call the backend's
  \<^verbatim>\<open>Pa_StopStream\<close> and \<^verbatim>\<open>Pa_CloseStream\<close> once, after logging the stream, and return
  normally for every error value the backend can report; when the value is not
  \<^verbatim>\<open>paNoError\<close> they log one more line with the text of the error, and nothing else
  happens.
\<close>

theorem stop_and_close_absorb_errors:
  "fst (StreamStopper fmt pa stream p) = Inr () \<and>
   backend (snd (StreamStopper fmt pa stream p)) = snd (Pa_StopStream pa stream (backend p)) \<and>
   logged (snd (StreamStopper fmt pa stream p)) =
     logged p @ [''Stopping PortAudio stream '' @ show_pointer fmt stream] @
     (if fst (Pa_StopStream pa stream (backend p)) \<noteq> paNoError
      then [''Unable to stop PortAudio stream: '' @
            Pa_GetErrorText pa (fst (Pa_StopStream pa stream (backend p)))]
      else []) \<and>
   fst (StreamDeleter fmt pa stream p) = Inr () \<and>
   backend (snd (StreamDeleter fmt pa stream p)) = snd (Pa_CloseStream pa stream (backend p)) \<and>
   logged (snd (StreamDeleter fmt pa stream p)) =
     logged p @ [''Closing PortAudio stream '' @ show_pointer fmt stream] @
     (if fst (Pa_CloseStream pa stream (backend p)) \<noteq> paNoError
      then [''Unable to close PortAudio stream: '' @
            Pa_GetErrorText pa (fst (Pa_CloseStream pa stream (backend p)))]
      else [])"
  by (simp add: StreamStopper_def StreamDeleter_def Log_def Let_def case_prod_beta)

subsection \<open>The description of stream parameters\<close>

text \<open>
  C7. When \<^verbatim>\<open>hostApiSpecificStreamInfo\<close> is null, the description is the general section
  alone. When it is not null, the description is the general section, then the header
  section, which is a function of the three header members \<^verbatim>\<open>size\<close>, \<^verbatim>\<open>hostApiType\<close> and
  \<^verbatim>\<open>version\<close> only, and then the WASAPI section of the seven members after the header if
  and only if \<^verbatim>\<open>hostApiType\<close> is \<^verbatim>\<open>paWASAPI\<close>; for any other type nothing after the header
  is read. The function returns a string and has no access to change its argument.
\<close>

theorem DescribeStreamParameters_sections:
  "DescribeStreamParameters fmt (parameters\<lparr>hostApiSpecificStreamInfo := None\<rparr>) =
     general_section fmt (device parameters) (channelCount parameters)
       (sampleFormat parameters) (suggestedLatency parameters) \<and>
   DescribeStreamParameters fmt (parameters\<lparr>hostApiSpecificStreamInfo := Some info\<rparr>) =
     general_section fmt (device parameters) (channelCount parameters)
       (sampleFormat parameters) (suggestedLatency parameters) @
     header_section fmt (size' info) (hostApiType info) (version info) @
     (if hostApiType info = paWASAPI
      then wasapi_section fmt (flags info) (channelMask info) (hostProcessorOutput info)
             (hostProcessorInput info) (threadPriority info) (streamCategory info)
             (streamOption info)
      else [])"
  by (simp add: DescribeStreamParameters_def general_section_def header_section_def
      wasapi_section_def Let_def)

subsection \<open>The reference count of PortAudioLogger\<close>

lemma ctor_inv:
  fixes st :: "('a::len) logger_state"
  assumes "unat (loggerReferenceCount st) = n" "Suc n < 2 ^ LENGTH('a)"
    "(debugPrintFunction st = DebugPrint) = (0 < n)"
  shows "unat (loggerReferenceCount (PortAudioLogger_ctor v st)) = Suc n"
    "debugPrintFunction (PortAudioLogger_ctor v st) = DebugPrint"
    "debugPrintCalls (PortAudioLogger_ctor v st) =
       debugPrintCalls st @ (if n = 0 then [DebugPrint] else [])"
proof -
  have "unat (loggerReferenceCount st + 1) = Suc n"
    using assms(1,2) by (simp add: unat_word_ariths)
  moreover have "(0 < loggerReferenceCount st) = (0 < n)"
    using assms(1) by (simp add: word_less_nat_alt)
  ultimately show "unat (loggerReferenceCount (PortAudioLogger_ctor v st)) = Suc n"
    "debugPrintFunction (PortAudioLogger_ctor v st) = DebugPrint"
    "debugPrintCalls (PortAudioLogger_ctor v st) =
       debugPrintCalls st @ (if n = 0 then [DebugPrint] else [])"
    using assms(3)
    by (auto simp add: PortAudioLogger_ctor_def Let_def logger_Log_def
        PaUtil_SetDebugPrintFunction_def)
qed

lemma dtor_inv:
  fixes st :: "('a::len) logger_state"
  assumes "unat (loggerReferenceCount st) = n" "0 < n"
    "(debugPrintFunction st = DebugPrint) = (0 < n)"
  shows "unat (loggerReferenceCount (PortAudioLogger_dtor st)) = n - 1"
    "(debugPrintFunction (PortAudioLogger_dtor st) = DebugPrint) = (0 < n - 1)"
    "debugPrintCalls (PortAudioLogger_dtor st) =
       debugPrintCalls st @ (if n = 1 then [NULL] else [])"
proof -
  have nz: "loggerReferenceCount st \<noteq> 0"
    using assms(1,2) by auto
  then have u: "unat (loggerReferenceCount st - 1) = n - 1"
    using assms(1) by (simp add: unat_minus_one)
  then have "(0 < loggerReferenceCount st - 1) = (0 < n - 1)"
    by (simp add: word_less_nat_alt)
  with u show "unat (loggerReferenceCount (PortAudioLogger_dtor st)) = n - 1"
    "(debugPrintFunction (PortAudioLogger_dtor st) = DebugPrint) = (0 < n - 1)"
    "debugPrintCalls (PortAudioLogger_dtor st) =
       debugPrintCalls st @ (if n = 1 then [NULL] else [])"
    using assms(2,3)
    by (auto simp add: PortAudioLogger_dtor_def Let_def logger_Log_def
        PaUtil_SetDebugPrintFunction_def)
qed

lemma logger_run_inv:
  fixes st :: "('a::len) logger_state"
  assumes "live_loggers (2 ^ LENGTH('a)) n ops = Some m"
    "unat (loggerReferenceCount st) = n"
    "(debugPrintFunction st = DebugPrint) = (0 < n)"
  shows "unat (loggerReferenceCount (logger_run v ops st)) = m \<and>
    (debugPrintFunction (logger_run v ops st) = DebugPrint) = (0 < m) \<and>
    debugPrintCalls (logger_run v ops st) = debugPrintCalls st @ redirection_calls n ops"
  using assms
proof (induction ops arbitrary: n st)
  case Nil
  then show ?case by simp
next
  case (Cons a ops)
  show ?case
  proof (cases a)
    case Construct
    with Cons.prems(1) have b: "Suc n < 2 ^ LENGTH('a)"
      and l: "live_loggers (2 ^ LENGTH('a)) (Suc n) ops = Some m"
      by (simp_all split: if_splits)
    note c = ctor_inv [OF Cons.prems(2) b Cons.prems(3), of v]
    have "(debugPrintFunction (PortAudioLogger_ctor v st) = DebugPrint) = (0 < Suc n)"
      using c(2) by simp
    from Cons.IH [OF l c(1) this] c(3) Construct show ?thesis
      by simp
  next
    case Destroy
    with Cons.prems(1) have b: "0 < n"
      and l: "live_loggers (2 ^ LENGTH('a)) (n - 1) ops = Some m"
      by (simp_all split: if_splits)
    note d = dtor_inv [OF Cons.prems(2) b Cons.prems(3)]
    from Cons.IH [OF l d(1) d(2)] d(3) Destroy show ?thesis
      by simp
  qed
qed

text \<open>
  C9. Take any sequence of constructions and destructions of \<^verbatim>\<open>PortAudioLogger\<close> objects,
  started with the count at zero and no redirection, that never destroys an object
  while none is live and never has as many live objects as \<^verbatim>\<open>size_t\<close> has values. After
  it, with \<open>m\<close> objects live, the reference count is \<open>m\<close>, the redirection is installed if
  and only if \<open>m\<close> is positive, and the calls of \<^verbatim>\<open>PaUtil_SetDebugPrintFunction\<close> made so
  far are exactly one with \<^verbatim>\<open>DebugPrint\<close> for each transition of the number of live
  objects from 0 to 1 and one with \<open>NULL\<close> for each transition from 1 to 0, in order: a
  nested logger makes no call.
\<close>

theorem PortAudioLogger_reference_count:
  assumes "live_loggers (2 ^ LENGTH('a)) 0 ops = Some m"
  shows "(debugPrintFunction (logger_run v ops (logger_initial :: ('a::len) logger_state)) =
            DebugPrint) = (0 < m) \<and>
    unat (loggerReferenceCount (logger_run v ops (logger_initial :: 'a logger_state))) = m \<and>
    debugPrintCalls (logger_run v ops (logger_initial :: 'a logger_state)) =
      redirection_calls 0 ops"
proof -
  have "unat (loggerReferenceCount (logger_initial :: 'a logger_state)) = 0"
    and "(debugPrintFunction (logger_initial :: 'a logger_state) = DebugPrint) = (0 < (0::nat))"
    and "debugPrintCalls (logger_initial :: 'a logger_state) = []"
    by (simp_all add: logger_initial_def)
  with logger_run_inv [OF assms, of logger_initial v] show ?thesis
    by simp
qed

text \<open>
  With a 64-bit count: two nested loggers of which the inner one is destroyed leave the
  redirection installed after a single call, and destroying the outer one clears it.
\<close>

theorem PortAudioLogger_reference_count_witness:
  "live_loggers (2 ^ LENGTH(64)) 0 [Construct, Construct, Destroy] = Some 1 \<and>
   debugPrintFunction
     (logger_run ''V19'' [Construct, Construct, Destroy] (logger_initial :: 64 logger_state)) =
     DebugPrint \<and>
   unat (loggerReferenceCount
     (logger_run ''V19'' [Construct, Construct, Destroy] (logger_initial :: 64 logger_state))) = 1 \<and>
   debugPrintCalls
     (logger_run ''V19'' [Construct, Construct, Destroy] (logger_initial :: 64 logger_state)) =
     [DebugPrint]"
proof -
  have live: "live_loggers (2 ^ LENGTH(64)) 0 [Construct, Construct, Destroy] = Some 1"
    by simp
  from PortAudioLogger_reference_count [OF live, of "''V19''"] live show ?thesis
    by simp
qed

end
